theory Spec2Isabelle
  imports Main "HOL-Library.Word" "HOL-Library.Signed_Division"
begin

section \<open>Netcap: record writer, profile registry and TCP reassembly hooks\<close>

text \<open>
  A shallow embedding of the Go sources \<^verbatim>\<open>writer.go\<close> (package netcap), of the
  IP profile registry (\<^verbatim>\<open>getIPProfile\<close>, package encoder) and of the TCP
  reassembly callbacks (\<^verbatim>\<open>Accept\<close>, \<^verbatim>\<open>ReassembledSG\<close>,
  \<^verbatim>\<open>ReassemblyComplete\<close>, \<^verbatim>\<open>ReassemblePacket\<close>) together with the
  end-of-capture pass of the HTTP encoder. Go structs are records, nil-able pointers
  are options, \<^verbatim>\<open>panic\<close> and \<^verbatim>\<open>log.Fatal\<close> are the left summand of a
  result, package-level variables are fields of an explicit state, and the Go fixed
  width counters are machine words.
\<close>

subsection \<open>Failures\<close>

text \<open>A run of the Go code ends abnormally by \<^verbatim>\<open>panic(msg)\<close> or by
  \<^verbatim>\<open>log.Fatal(msg)\<close>.\<close>

datatype failure = Panic string | Fatal string

subsection \<open>The record writer (writer.go)\<close>

text \<open>
  The writer stacks output layers: an \<^verbatim>\<open>*os.File\<close> made by
  \<^verbatim>\<open>CreateFile(path, ext)\<close>, a \<^verbatim>\<open>bufio.Writer\<close> made by
  \<^verbatim>\<open>bufio.NewWriterSize(under, size)\<close>, a pgzip writer, a channel writer, and on
  top the delimited, atomic delimited or CSV writer. A layer records what it was
  constructed from; \<open>NilFile\<close> is the nil \<^verbatim>\<open>*os.File\<close> handed to a constructor.
\<close>

datatype layer =
    NilFile
  | OsFile string string string
  | Bufio layer int
  | Gzip layer
  | Chan
  | Delimited layer
  | AtomicDelimited layer
  | CSV layer

record Writer =
  Name :: string
  file' :: "layer option"
  bWriter :: "layer option"
  gWriter :: "layer option"
  dWriter :: "layer option"
  aWriter :: "layer option"
  cWriter :: "layer option"
  csvWriter :: "layer option"
  compress :: bool
  buffer :: bool
  csv :: bool
  out :: string
  IsChanWriter :: bool

text \<open>
  The constants \<^verbatim>\<open>DefaultBufferSize\<close> and \<^verbatim>\<open>DefaultCompressionBlockSize\<close>
  are declared outside the files at hand and \<^verbatim>\<open>runtime.GOMAXPROCS(0)\<close> belongs to
  the machine, so they are parameters. \<open>SetConcurrency_err\<close> is what
  \<^verbatim>\<open>gWriter.SetConcurrency(DefaultCompressionBlockSize, runtime.GOMAXPROCS(0)*2)\<close>
  returns in this environment (\<open>None\<close> is Go's nil error).
\<close>

record environment =
  DefaultBufferSize :: int
  DefaultCompressionBlockSize :: int
  GOMAXPROCS :: int
  SetConcurrency_err :: "string option"

text \<open>\<^verbatim>\<open>CreateFile(filepath.Join(out, w.Name), ext)\<close>: the handle remembers the
  directory, the name and the extension it was made from.\<close>

definition CreateFile :: "string \<Rightarrow> string \<Rightarrow> string \<Rightarrow> layer" where
  "CreateFile outdir name ext = OsFile outdir name ext"

text \<open>The \<^verbatim>\<open>*os.File\<close> stored in \<^verbatim>\<open>w.file\<close> as a constructor reads it.\<close>

definition file_of :: "'a Writer_scheme \<Rightarrow> layer" where
  "file_of w = (case file' w of None \<Rightarrow> NilFile | Some f \<Rightarrow> f)"

definition new_Writer :: "string \<Rightarrow> bool \<Rightarrow> bool \<Rightarrow> bool \<Rightarrow> string \<Rightarrow> bool \<Rightarrow> Writer" where
  "new_Writer name buffer' compress' csv' out' writeChan =
     \<lparr>Name = name, file' = None, bWriter = None, gWriter = None, dWriter = None,
      aWriter = None, cWriter = None, csvWriter = None, compress = compress',
      buffer = buffer', csv = csv', out = out', IsChanWriter = writeChan\<rparr>"

text \<open>The block \<^verbatim>\<open>if w.gWriter != nil { if err := SetConcurrency(...); err != nil
  { log.Fatal(...) } }; return w\<close> that ends both branches of the constructor.\<close>

definition configure_gzip :: "environment \<Rightarrow> Writer \<Rightarrow> failure + Writer" where
  "configure_gzip env w =
     (if gWriter w \<noteq> None then
        (case SetConcurrency_err env of
           Some err \<Rightarrow> Inl (Fatal (''failed to configure compression package: '' @ err))
         | None \<Rightarrow> Inr w)
      else Inr w)"

text \<open>The CSV branch of \<^verbatim>\<open>NewWriter\<close> (lines 79 to 117).\<close>

definition NewWriter_csv :: "environment \<Rightarrow> Writer \<Rightarrow> int \<Rightarrow> failure + Writer" where
  "NewWriter_csv env w0 memBufferSize =
     (let w1 = (if compress w0
                then w0\<lparr>file' := Some (CreateFile (out w0) (Name w0) ''.csv.gz'')\<rparr>
                else w0\<lparr>file' := Some (CreateFile (out w0) (Name w0) ''.csv'')\<rparr>);
          w2 = (if buffer w1 then
                  (let b = Bufio (file_of w1) memBufferSize;
                       wb = w1\<lparr>bWriter := Some b\<rparr>
                   in if compress wb
                      then wb\<lparr>gWriter := Some (Gzip b), csvWriter := Some (CSV (Gzip b))\<rparr>
                      else wb\<lparr>csvWriter := Some (CSV b)\<rparr>)
                else
                  (if compress w1
                   then w1\<lparr>gWriter := Some (Gzip (file_of w1)),
                           csvWriter := Some (CSV (Gzip (file_of w1)))\<rparr>
                   else w1\<lparr>csvWriter := Some (CSV (file_of w1))\<rparr>))
      in configure_gzip env w2)"

text \<open>The protobuf branch of \<^verbatim>\<open>NewWriter\<close> (lines 119 to 168).\<close>

definition NewWriter_proto :: "environment \<Rightarrow> Writer \<Rightarrow> bool \<Rightarrow> failure + Writer" where
  "NewWriter_proto env w0 writeChan =
     (if writeChan \<and> buffer w0 \<or> writeChan \<and> compress w0 then
        Inl (Panic ''buffering or compression cannot be activated when running using writeChan'')
      else
        (let w1 = (if writeChan then w0\<lparr>cWriter := Some Chan\<rparr>
                   else if compress w0
                   then w0\<lparr>file' := Some (CreateFile (out w0) (Name w0) ''.ncap.gz'')\<rparr>
                   else w0\<lparr>file' := Some (CreateFile (out w0) (Name w0) ''.ncap'')\<rparr>);
             w2 = (if buffer w1 then
                     (let b = Bufio (file_of w1) (DefaultBufferSize env);
                          wb = w1\<lparr>bWriter := Some b\<rparr>
                      in if compress wb
                         then wb\<lparr>gWriter := Some (Gzip b), dWriter := Some (Delimited (Gzip b))\<rparr>
                         else wb\<lparr>dWriter := Some (Delimited b)\<rparr>)
                   else
                     (if compress w1
                      then w1\<lparr>gWriter := Some (Gzip (file_of w1)),
                              dWriter := Some (Delimited (Gzip (file_of w1)))\<rparr>
                      else if writeChan
                      then w1\<lparr>dWriter := Some (Delimited Chan)\<rparr>
                      else w1\<lparr>dWriter := Some (Delimited (file_of w1))\<rparr>));
             w3 = w2\<lparr>aWriter := map_option AtomicDelimited (dWriter w2)\<rparr>
         in configure_gzip env w3))"

text \<open>\<^verbatim>\<open>NewWriter(name, buffer, compress, csv, out, writeChan, memBufferSize)\<close>.\<close>

definition NewWriter ::
  "environment \<Rightarrow> string \<Rightarrow> bool \<Rightarrow> bool \<Rightarrow> bool \<Rightarrow> string \<Rightarrow> bool \<Rightarrow> int \<Rightarrow> failure + Writer" where
  "NewWriter env name buffer' compress' csv' out' writeChan memBufferSize0 =
     (let w = new_Writer name buffer' compress' csv' out' writeChan;
          memBufferSize = (if memBufferSize0 \<le> 0 then DefaultBufferSize env else memBufferSize0)
      in if csv' then NewWriter_csv env w memBufferSize
         else NewWriter_proto env w writeChan)"

text \<open>An environment for concrete runs: ten mebibytes of buffer, one mebibyte
  compression blocks, four processors, and a pgzip that accepts its configuration.\<close>

definition env0 :: environment where
  "env0 = \<lparr>DefaultBufferSize = 10485760, DefaultCompressionBlockSize = 1048576,
           GOMAXPROCS = 4, SetConcurrency_err = None\<rparr>"

subsection \<open>Packets as the encoders see them\<close>

text \<open>
  A \<^verbatim>\<open>gopacket.Packet\<close> is read through its accessors. The fields below are what the
  accessors return for one packet: the raw bytes, the transport layer (its layer type
  and the source and destination endpoints as strings), the network flow, the TCP, UDP
  and IPv4 layers, the capture timestamp, and what the external analysers
  (\<^verbatim>\<open>tlsx.GetClientHelloBasic\<close>, \<^verbatim>\<open>ja3.DigestHexPacket\<close>,
  \<^verbatim>\<open>ja3.DigestHexPacketJa3s\<close>, \<^verbatim>\<open>dpi.GetProtocols\<close>) compute from it.
  A point in time is its offset in nanoseconds, a duration a number of nanoseconds.
  \<open>NetworkFlow\<close> is \<^verbatim>\<open>packet.NetworkLayer().NetworkFlow()\<close>; a packet with a TCP
  layer is taken to have a network layer.
\<close>

type_synonym Time = int
type_synonym Duration = int

datatype LayerType = LayerTypeTCP | LayerTypeUDP | LayerTypeOther

record Flow =
  Src :: string
  Dst :: string

definition Reverse :: "Flow \<Rightarrow> Flow" where
  "Reverse f = \<lparr>Src = Dst f, Dst = Src f\<rparr>"

record transport =
  tl_LayerType :: LayerType
  TransportFlow :: Flow

record TCP =
  Payload :: "8 word list"

record IPv4 =
  Length :: "16 word"
  ip_Payload :: "8 word list"

record dpi_result =
  res_Category :: string
  res_Timestamp :: string

record packet =
  Data :: "8 word list"
  TransportLayer :: "transport option"
  NetworkFlow :: Flow
  LayerTCP :: "TCP option"
  LayerUDP :: bool
  LayerIPv4 :: "IPv4 option"
  CaptureInfo_Timestamp :: Time
  PacketBuilder :: bool
  GetClientHelloBasic :: "string option"
  DigestHexPacket :: string
  DigestHexPacketJa3s :: string
  GetProtocols :: "(string \<times> dpi_result) list"

subsection \<open>The IP profile registry (getIPProfile)\<close>

text \<open>
  Modelled from the spec: the record types \<^verbatim>\<open>types.IPProfile\<close>, \<^verbatim>\<open>types.Port\<close>
  and \<^verbatim>\<open>types.Protocol\<close> are declared outside the files at hand. The fields are
  the ones \<^verbatim>\<open>getIPProfile\<close> reads and writes. \<^verbatim>\<open>Bytes\<close> and \<^verbatim>\<open>NumTotal\<close>
  receive \<^verbatim>\<open>+= dataLen\<close> with \<^verbatim>\<open>dataLen\<close> a \<^verbatim>\<open>uint64\<close>, and the SNI map is
  made as \<^verbatim>\<open>map[string]int64\<close>; the remaining counters are 64 bits wide as well.
\<close>

record Port =
  NumTotal :: "64 word"
  NumTCP :: "64 word"
  NumUDP :: "64 word"

record Protocol =
  Packets :: "64 word"
  Category :: string

record IPProfile =
  Addr :: string
  NumPackets :: "64 word"
  Geolocation :: string
  DNSNames :: "string list"
  TimestampFirst :: string
  TimestampLast :: string
  Ja3 :: "string \<rightharpoonup> string"
  Protocols :: "string \<rightharpoonup> Protocol"
  Bytes :: "64 word"
  SrcPorts :: "string \<rightharpoonup> Port"
  DstPorts :: "string \<rightharpoonup> Port"
  SNIs :: "string \<rightharpoonup> 64 word"

text \<open>\<^verbatim>\<open>AtomicIPProfileMap\<close>: source address to profile. The two mutexes order
  concurrent callers and have no counterpart in a sequential run.\<close>

record AtomicIPProfileMap =
  Items :: "string \<rightharpoonup> IPProfile"

text \<open>\<^verbatim>\<open>idents\<close>: the packet under inspection and its timestamp string.\<close>

record idents =
  timestamp :: string
  p :: packet

text \<open>The lookups of package \<^verbatim>\<open>resolvers\<close> and \<^verbatim>\<open>dpi.NewProto\<close>, which live
  outside the files at hand, and the package variable \<^verbatim>\<open>LocalDNS\<close>.\<close>

record resolvers =
  LookupJa3 :: "string \<Rightarrow> string"
  LookupGeolocation :: "string \<Rightarrow> string"
  LookupDNSNameLocal :: "string \<Rightarrow> string"
  LookupDNSNames :: "string \<Rightarrow> string list"
  NewProto :: "dpi_result \<Rightarrow> Protocol"
  LocalDNS :: bool

text \<open>\<^verbatim>\<open>if tl.LayerType() == layers.LayerTypeTCP { port.NumTCP++ } else if
  tl.LayerType() == layers.LayerTypeUDP { port.NumUDP++ }\<close>.\<close>

definition count_layer :: "LayerType \<Rightarrow> Port \<Rightarrow> Port" where
  "count_layer lt port =
     (if lt = LayerTypeTCP then port\<lparr>NumTCP := NumTCP port + 1\<rparr>
      else if lt = LayerTypeUDP then port\<lparr>NumUDP := NumUDP port + 1\<rparr>
      else port)"

text \<open>\<^verbatim>\<open>&types.Port{NumTotal: dataLen}\<close> followed by the layer count.\<close>

definition new_port :: "LayerType \<Rightarrow> 64 word \<Rightarrow> Port" where
  "new_port lt dataLen = count_layer lt \<lparr>NumTotal = dataLen, NumTCP = 0, NumUDP = 0\<rparr>"

text \<open>The update of one port map for an existing profile (lines 73 to 90 for the source
  port, 92 to 109 for the destination port).\<close>

definition update_port :: "(string \<rightharpoonup> Port) \<Rightarrow> string \<Rightarrow> 64 word \<Rightarrow> LayerType \<Rightarrow> (string \<rightharpoonup> Port)" where
  "update_port ports key dataLen lt =
     (case ports key of
        Some port \<Rightarrow> ports(key \<mapsto> count_layer lt (port\<lparr>NumTotal := NumTotal port + dataLen\<rparr>))
      | None \<Rightarrow> ports(key \<mapsto> new_port lt dataLen))"

text \<open>\<^verbatim>\<open>ja3Hash := ja3.DigestHexPacket(i.p); if ja3Hash == "" { ja3Hash =
  ja3.DigestHexPacketJa3s(i.p) }\<close>.\<close>

definition ja3Hash :: "packet \<Rightarrow> string" where
  "ja3Hash pk = (if DigestHexPacket pk = [] then DigestHexPacketJa3s pk else DigestHexPacket pk)"

text \<open>The range over the DPI results for an existing profile (lines 133 to 142): a known
  protocol counts one more packet, a new one is added.\<close>

fun update_protocols :: "resolvers \<Rightarrow> (string \<times> dpi_result) list \<Rightarrow> (string \<rightharpoonup> Protocol) \<Rightarrow> (string \<rightharpoonup> Protocol)" where
  "update_protocols rs [] protos = protos"
| "update_protocols rs ((proto, res) # rest) protos =
     update_protocols rs rest
       (case protos proto of
          Some prot \<Rightarrow> protos(proto \<mapsto> prot\<lparr>Packets := Packets prot + 1\<rparr>)
        | None \<Rightarrow> protos(proto \<mapsto> NewProto rs res))"

text \<open>The range over the DPI results for a new profile (lines 204 to 207).\<close>

fun new_protocols :: "resolvers \<Rightarrow> (string \<times> dpi_result) list \<Rightarrow> (string \<rightharpoonup> Protocol) \<Rightarrow> (string \<rightharpoonup> Protocol)" where
  "new_protocols rs [] protos = protos"
| "new_protocols rs ((proto, res) # rest) protos =
     new_protocols rs rest (protos(proto \<mapsto> NewProto rs res))"

text \<open>The body of the branch \<^verbatim>\<open>if p, ok := ipProfiles.Items[ipAddr]; ok\<close>
  (lines 60 to 146), as a function of the profile found.\<close>

definition update_profile :: "resolvers \<Rightarrow> idents \<Rightarrow> IPProfile \<Rightarrow> IPProfile" where
  "update_profile rs i ip0 =
     (let pk = p i;
          ip1 = ip0\<lparr>NumPackets := NumPackets ip0 + 1\<rparr>;
          ip2 = ip1\<lparr>TimestampLast := timestamp i\<rparr>;
          dataLen = (of_nat (length (Data pk)) :: 64 word);
          ip3 = ip2\<lparr>Bytes := Bytes ip2 + dataLen\<rparr>;
          ip4 = (case TransportLayer pk of
                   Some tl0 \<Rightarrow>
                     (let a = ip3\<lparr>SrcPorts := update_port (SrcPorts ip3)
                                  (Src (TransportFlow tl0)) dataLen (tl_LayerType tl0)\<rparr>
                      in a\<lparr>DstPorts := update_port (DstPorts a)
                                  (Dst (TransportFlow tl0)) dataLen (tl_LayerType tl0)\<rparr>)
                 | None \<Rightarrow> ip3);
          ip5 = (case GetClientHelloBasic pk of
                   Some sni \<Rightarrow>
                     (if sni \<noteq> [] then
                        ip4\<lparr>SNIs := (SNIs ip4)(sni \<mapsto>
                               (case SNIs ip4 sni of Some n \<Rightarrow> n | None \<Rightarrow> 0) + 1)\<rparr>
                      else ip4)
                 | None \<Rightarrow> ip4);
          h = ja3Hash pk;
          ip6 = (if h \<noteq> [] then
                   (if Ja3 ip5 h = None then ip5\<lparr>Ja3 := (Ja3 ip5)(h \<mapsto> LookupJa3 rs h)\<rparr>
                    else ip5)
                 else ip5)
      in ip6\<lparr>Protocols := update_protocols rs (GetProtocols pk) (Protocols ip6)\<rparr>)"

text \<open>The construction of a new profile (lines 149 to 233).\<close>

definition new_profile :: "resolvers \<Rightarrow> string \<Rightarrow> idents \<Rightarrow> IPProfile" where
  "new_profile rs ipAddr i =
     (let pk = p i;
          dataLen = (of_nat (length (Data pk)) :: 64 word);
          loc = LookupGeolocation rs ipAddr;
          srcPorts = (case TransportLayer pk of
                        Some tl0 \<Rightarrow> Map.empty(Src (TransportFlow tl0) \<mapsto> new_port (tl_LayerType tl0) dataLen)
                      | None \<Rightarrow> Map.empty);
          dstPorts = (case TransportLayer pk of
                        Some tl0 \<Rightarrow> Map.empty(Dst (TransportFlow tl0) \<mapsto> new_port (tl_LayerType tl0) dataLen)
                      | None \<Rightarrow> Map.empty);
          h = ja3Hash pk;
          ja3Map = (if h \<noteq> [] then Map.empty(h \<mapsto> LookupJa3 rs h) else Map.empty);
          sniMap = (case GetClientHelloBasic pk of
                      Some sni \<Rightarrow> Map.empty(sni \<mapsto> (1 :: 64 word))
                    | None \<Rightarrow> Map.empty);
          protos = new_protocols rs (GetProtocols pk) Map.empty;
          names = (if LocalDNS rs then
                     (if LookupDNSNameLocal rs ipAddr \<noteq> [] then [LookupDNSNameLocal rs ipAddr]
                      else [])
                   else LookupDNSNames rs ipAddr)
      in \<lparr>Addr = ipAddr, NumPackets = 1, Geolocation = loc, DNSNames = names,
          TimestampFirst = timestamp i, TimestampLast = [], Ja3 = ja3Map,
          Protocols = protos, Bytes = dataLen, SrcPorts = srcPorts, DstPorts = dstPorts,
          SNIs = sniMap\<rparr>)"

text \<open>\<^verbatim>\<open>getIPProfile(ipAddr, i)\<close>: the result is the profile pointed to (\<open>None\<close> for
  nil) and the registry \<^verbatim>\<open>ipProfiles\<close> after the call.\<close>

definition getIPProfile ::
  "resolvers \<Rightarrow> string \<Rightarrow> idents \<Rightarrow> AtomicIPProfileMap \<Rightarrow> IPProfile option \<times> AtomicIPProfileMap" where
  "getIPProfile rs ipAddr i ipProfiles =
     (if length ipAddr = 0 then (None, ipProfiles)
      else
        (case Items ipProfiles ipAddr of
           Some ip0 \<Rightarrow>
             (let ip' = update_profile rs i ip0
              in (Some ip', ipProfiles\<lparr>Items := (Items ipProfiles)(ipAddr \<mapsto> ip')\<rparr>))
         | None \<Rightarrow>
             (let ip' = new_profile rs ipAddr i
              in (Some ip', ipProfiles\<lparr>Items := (Items ipProfiles)(ipAddr \<mapsto> ip')\<rparr>))))"

subsection \<open>Reassembly configuration and statistics\<close>

text \<open>The fields of the configuration \<^verbatim>\<open>c\<close> that the reassembly code reads. Go's
  \<^verbatim>\<open>int\<close> is a 64 bit word, read as two's complement by \<open>sint\<close>.\<close>

type_synonym go_int = "64 word"

record Config =
  FlushEvery :: go_int
  ClosePendingTimeOut :: Duration
  CloseInactiveTimeOut :: Duration
  AllowMissingInit :: bool
  IgnoreFSMerr :: bool
  NoOptCheck :: bool
  Checksum :: bool
  NoDefrag :: bool
  HexDump :: bool

text \<open>The package variable \<^verbatim>\<open>reassemblyStats\<close>; every field is an \<^verbatim>\<open>int64\<close>.\<close>

record reassemblyStats =
  ipdefrag :: "64 word"
  missedBytes :: "64 word"
  pkt :: "64 word"
  sz :: "64 word"
  totalsz :: "64 word"
  rejectFsm :: "64 word"
  rejectOpt :: "64 word"
  rejectConnFsm :: "64 word"
  reassembled :: "64 word"
  outOfOrderBytes :: "64 word"
  outOfOrderPackets :: "64 word"
  biggestChunkBytes :: "64 word"
  biggestChunkPackets :: "64 word"
  overlapBytes :: "64 word"
  overlapPackets :: "64 word"
  savedTCPConnections :: "64 word"
  savedUDPConnections :: "64 word"
  numSoftware :: "64 word"
  numServices :: "64 word"

text \<open>The decoder switches of \<^verbatim>\<open>streamFactory\<close> read by \<^verbatim>\<open>ReassembledSG\<close>.\<close>

record tcpStreamFactory =
  decodeSSH :: bool
  decodeHTTP :: bool
  decodePOP3 :: bool

subsection \<open>TCP connections and their stream readers\<close>

datatype TCPFlowDirection = TCPDirClientToServer | TCPDirServerToClient

text \<open>The assembler context carries the capture information of the packet that
  triggered the call; its timestamp is what the connection code reads.\<close>

record AssemblerContext =
  ac_Timestamp :: Time

text \<open>\<^verbatim>\<open>StreamData{raw, ac, dir}\<close>: one fragment handed to a reader.\<close>

record StreamData =
  raw :: "8 word list"
  ac :: AssemblerContext
  dir :: TCPFlowDirection

text \<open>
  A \<^verbatim>\<open>StreamReader\<close> is used through its interface: \<^verbatim>\<open>SetClient\<close> sets
  \<open>isClient\<close>, \<^verbatim>\<open>Network()\<close> reads \<open>Network\<close>, \<^verbatim>\<open>DataSlice()\<close> is the list
  of fragments the reader has stored, and \<^verbatim>\<open>DataChan()\<close> is its channel: a send
  appends to \<open>DataChan\<close>, and a send on a closed channel panics. Whether a send has
  to wait for the consuming goroutine is a matter of scheduling and not part of this
  sequential model.
\<close>

record StreamReader =
  isClient :: bool
  Network :: Flow
  DataSlice :: "StreamData list"
  DataChan :: "StreamData list"
  chan_closed :: bool

text \<open>The fields of \<^verbatim>\<open>tcpConnection\<close> that \<^verbatim>\<open>Accept\<close>,
  \<^verbatim>\<open>ReassembledSG\<close> and the first block of \<^verbatim>\<open>ReassemblyComplete\<close> use. A nil
  reader is \<open>None\<close>.\<close>

record tcpConnection =
  net :: Flow
  transport :: Flow
  fsmerr :: bool
  isHTTP :: bool
  isHTTPS :: bool
  isPOP3 :: bool
  isSSH :: bool
  ident :: string
  client :: "StreamReader option"
  server :: "StreamReader option"
  firstPacket :: Time

subsection \<open>Accept\<close>

text \<open>
  What the three checkers answer for one segment: \<^verbatim>\<open>t.tcpstate.CheckState(tcp, dir)\<close>,
  the error of \<^verbatim>\<open>t.optchecker.Accept(tcp, ci, dir, nextSeq, start)\<close> (\<open>None\<close> for
  nil) and the pair returned by \<^verbatim>\<open>tcp.ComputeChecksum()\<close> (\<open>Inl\<close> an error,
  \<open>Inr\<close> the checksum). The checkers belong to the reassembly library; \<^verbatim>\<open>Accept\<close>
  consults the second only when the first stage has not returned, and the third only
  when the second stage has not returned.
\<close>

record segment =
  CheckState :: bool
  optchecker_Accept :: "string option"
  ComputeChecksum :: "string + 16 word"

text \<open>The checksum stage (lines 189 to 208).\<close>

definition Accept_checksum ::
  "Config \<Rightarrow> segment \<Rightarrow> reassemblyStats \<Rightarrow> tcpConnection \<Rightarrow> bool \<times> reassemblyStats \<times> tcpConnection" where
  "Accept_checksum c seg st t =
     (let accept = (if Checksum c then
                      (case ComputeChecksum seg of
                         Inl err \<Rightarrow> False
                       | Inr ck \<Rightarrow> if ck \<noteq> 0 then False else True)
                    else True)
      in if \<not> accept then (accept, st\<lparr>rejectOpt := rejectOpt st + 1\<rparr>, t)
         else (accept, st, t))"

text \<open>The option stage (lines 177 to 187), followed by the checksum stage.\<close>

definition Accept_options ::
  "Config \<Rightarrow> segment \<Rightarrow> reassemblyStats \<Rightarrow> tcpConnection \<Rightarrow> bool \<times> reassemblyStats \<times> tcpConnection" where
  "Accept_options c seg st t =
     (case optchecker_Accept seg of
        Some err \<Rightarrow>
          (let st1 = st\<lparr>rejectOpt := rejectOpt st + 1\<rparr>
           in if \<not> NoOptCheck c then (False, st1, t)
              else Accept_checksum c seg st1 t)
      | None \<Rightarrow> Accept_checksum c seg st t)"

text \<open>\<^verbatim>\<open>tcpConnection.Accept\<close> (lines 160 to 209): the answer, the statistics and
  the connection after the call.\<close>

definition Accept ::
  "Config \<Rightarrow> segment \<Rightarrow> reassemblyStats \<Rightarrow> tcpConnection \<Rightarrow> bool \<times> reassemblyStats \<times> tcpConnection" where
  "Accept c seg st t =
     (if \<not> CheckState seg then
        (let st1 = st\<lparr>rejectFsm := rejectFsm st + 1\<rparr>;
             t1 = (if \<not> fsmerr t then t\<lparr>fsmerr := True\<rparr> else t);
             st2 = (if \<not> fsmerr t then st1\<lparr>rejectConnFsm := rejectConnFsm st1 + 1\<rparr> else st1)
         in if \<not> IgnoreFSMerr c then (False, st2, t1)
            else Accept_options c seg st2 t1)
      else Accept_options c seg st t)"

text \<open>The segments of one connection offered to \<^verbatim>\<open>Accept\<close> one after the other;
  the answers are collected in order.\<close>

fun Accept_all ::
  "Config \<Rightarrow> segment list \<Rightarrow> reassemblyStats \<Rightarrow> tcpConnection \<Rightarrow> bool list \<times> reassemblyStats \<times> tcpConnection" where
  "Accept_all c [] st t = ([], st, t)"
| "Accept_all c (seg # segs) st t =
     (case Accept c seg st t of
        (b, st1, t1) \<Rightarrow>
          (case Accept_all c segs st1 t1 of
             (bs, st2, t2) \<Rightarrow> (b # bs, st2, t2)))"

subsection \<open>ReassembledSG\<close>

text \<open>
  The scatter-gather view as \<^verbatim>\<open>ReassembledSG\<close> reads it: \<^verbatim>\<open>sg.Lengths()\<close>,
  \<^verbatim>\<open>sg.Info()\<close>, \<^verbatim>\<open>sg.Stats()\<close> and \<^verbatim>\<open>sg.Fetch(n)\<close>.
\<close>

record ScatterGather =
  sg_length :: go_int
  sg_saved :: go_int
  sg_dir :: TCPFlowDirection
  sg_start :: bool
  sg_end :: bool
  sg_skip :: go_int
  sg_Packets :: go_int
  sg_Chunks :: go_int
  sg_QueuedPackets :: go_int
  sg_QueuedBytes :: go_int
  sg_OverlapBytes :: go_int
  sg_OverlapPackets :: go_int
  Fetch :: "go_int \<Rightarrow> 8 word list"

text \<open>\<^verbatim>\<open>updateStats\<close> (lines 211 to 248); the log lines leave no trace in the state.\<close>

definition updateStats :: "ScatterGather \<Rightarrow> reassemblyStats \<Rightarrow> reassemblyStats" where
  "updateStats sg st0 =
     (let st1 = (if 0 < sint (sg_skip sg)
                 then st0\<lparr>missedBytes := missedBytes st0 + sg_skip sg\<rparr> else st0);
          st2 = st1\<lparr>sz := sz st1 + (sg_length sg - sg_saved sg)\<rparr>;
          st3 = st2\<lparr>pkt := pkt st2 + sg_Packets sg\<rparr>;
          st4 = (if 1 < sint (sg_Chunks sg)
                 then st3\<lparr>reassembled := reassembled st3 + 1\<rparr> else st3);
          st5 = st4\<lparr>outOfOrderPackets := outOfOrderPackets st4 + sg_QueuedPackets sg\<rparr>;
          st6 = st5\<lparr>outOfOrderBytes := outOfOrderBytes st5 + sg_QueuedBytes sg\<rparr>;
          st7 = (if sint (biggestChunkBytes st6) < sint (sg_length sg)
                 then st6\<lparr>biggestChunkBytes := sg_length sg\<rparr> else st6);
          st8 = (if sint (biggestChunkPackets st7) < sint (sg_Packets sg)
                 then st7\<lparr>biggestChunkPackets := sg_Packets sg\<rparr> else st7);
          st9 = st8\<lparr>overlapBytes := overlapBytes st8 + sg_OverlapBytes sg\<rparr>
      in st9\<lparr>overlapPackets := overlapPackets st9 + sg_OverlapPackets sg\<rparr>)"

text \<open>Go's \<^verbatim>\<open>copy(dst, src)\<close>: the first \<open>min (len dst) (len src)\<close> elements are
  overwritten; the result is the destination afterwards and the number copied.\<close>

definition go_copy :: "'a list \<Rightarrow> 'a list \<Rightarrow> 'a list \<times> nat" where
  "go_copy dst src =
     (let n = min (length dst) (length src) in (take n src @ drop n dst, n))"

text \<open>A send on the reader's channel; a nil reader and a closed channel panic.\<close>

definition send :: "StreamReader option \<Rightarrow> StreamData \<Rightarrow> failure + StreamReader" where
  "send r d =
     (case r of
        None \<Rightarrow> Inl (Panic ''invalid memory address or nil pointer dereference'')
      | Some rd \<Rightarrow>
          if chan_closed rd then Inl (Panic ''send on closed channel'')
          else Inr (rd\<lparr>DataChan := DataChan rd @ [d]\<rparr>))"

text \<open>\<^verbatim>\<open>feedData\<close> (lines 250 to 275).\<close>

definition feedData ::
  "tcpConnection \<Rightarrow> TCPFlowDirection \<Rightarrow> 8 word list \<Rightarrow> AssemblerContext \<Rightarrow> failure + tcpConnection" where
  "feedData t d data' cx =
     (case go_copy (replicate (length data') 0) data' of
        (dataCpy, l) \<Rightarrow>
          if l \<noteq> length data' then Inl (Fatal ''l != len(data)'')
          else if d = TCPDirClientToServer then
            (case send (client t) \<lparr>raw = dataCpy, ac = cx, dir = d\<rparr> of
               Inl e \<Rightarrow> Inl e
             | Inr rd \<Rightarrow> Inr (t\<lparr>client := Some rd\<rparr>))
          else
            (case send (server t) \<lparr>raw = dataCpy, ac = cx, dir = d\<rparr> of
               Inl e \<Rightarrow> Inl e
             | Inr rd \<Rightarrow> Inr (t\<lparr>server := Some rd\<rparr>)))"

text \<open>\<^verbatim>\<open>ReassembledSG\<close> (lines 315 to 356): the statistics and the connection
  after the call, or the failure that ends the run. \<open>ReassembledSG_feed\<close> is the part
  from \<^verbatim>\<open>data := sg.Fetch(length)\<close> on.\<close>

definition ReassembledSG_feed ::
  "tcpStreamFactory \<Rightarrow> ScatterGather \<Rightarrow> AssemblerContext \<Rightarrow> reassemblyStats \<Rightarrow> tcpConnection
     \<Rightarrow> failure + reassemblyStats \<times> tcpConnection" where
  "ReassembledSG_feed streamFactory sg cx st t =
     (let data' = Fetch sg (sg_length sg)
      in if isSSH t \<and> \<not> decodeSSH streamFactory then Inr (st, t)
         else if isHTTP t \<and> \<not> decodeHTTP streamFactory then Inr (st, t)
         else if isPOP3 t \<and> \<not> decodePOP3 streamFactory then Inr (st, t)
         else if isHTTPS t then Inr (st, t)
         else if 0 < sint (sg_length sg) then
           (case feedData t (sg_dir sg) data' cx of
              Inl e \<Rightarrow> Inl e
            | Inr t' \<Rightarrow> Inr (st, t'))
         else Inr (st, t))"

definition ReassembledSG ::
  "Config \<Rightarrow> tcpStreamFactory \<Rightarrow> ScatterGather \<Rightarrow> AssemblerContext \<Rightarrow> reassemblyStats \<Rightarrow> tcpConnection
     \<Rightarrow> failure + reassemblyStats \<times> tcpConnection" where
  "ReassembledSG c streamFactory sg cx st0 t =
     (let st = updateStats sg st0
      in if sg_skip sg = - 1 \<and> AllowMissingInit c then ReassembledSG_feed streamFactory sg cx st t
         else if sg_skip sg \<noteq> 0 then Inr (st, t)
         else ReassembledSG_feed streamFactory sg cx st t)"

subsection \<open>The first block of ReassemblyComplete\<close>






subsection \<open>ReassemblePacket\<close>







subsection \<open>The end-of-capture pass of the HTTP encoder\<close>

text \<open>
  \<^verbatim>\<open>http.Request\<close> and \<^verbatim>\<open>http.Response\<close> as \<^verbatim>\<open>setRequest\<close> and the
  encoder read them; a header field holds what \<^verbatim>\<open>Header.Get\<close> returns for it.
\<close>

record Request =
  req_netcap_ts :: string
  req_Proto :: string
  req_Method :: string
  req_Host :: string
  req_UserAgent :: string
  req_Referer :: string
  req_ContentLength :: "64 word"
  req_URL :: string
  req_netcap_clientip :: string
  req_netcap_serverip :: string

record Response =
  res_ContentLength :: "64 word"
  res_Content_Type :: string
  res_StatusCode :: go_int
  res_Request :: "Request option"

text \<open>The fields of the audit record \<^verbatim>\<open>types.HTTP\<close> that the encoder sets; a field
  that is never set keeps Go's zero value.\<close>

record HTTP =
  Timestamp :: string
  Proto :: string
  Method :: string
  Host :: string
  UserAgent :: string
  Referer :: string
  ReqContentLength :: "32 word"
  URL :: string
  ResContentLength :: "32 word"
  ContentType :: string
  StatusCode :: "32 word"
  SrcIP :: string
  DstIP :: string

definition zero_HTTP :: HTTP where
  "zero_HTTP = \<lparr>Timestamp = [], Proto = [], Method = [], Host = [], UserAgent = [],
     Referer = [], ReqContentLength = 0, URL = [], ResContentLength = 0, ContentType = [],
     StatusCode = 0, SrcIP = [], DstIP = []\<rparr>"

text \<open>\<^verbatim>\<open>strings.Replace(s, ",", "(comma)", -1)\<close>.\<close>

definition escape_commas :: "string \<Rightarrow> string" where
  "escape_commas s = concat (map (\<lambda>ch. if ch = CHR '','' then ''(comma)'' else [ch]) s)"

text \<open>\<^verbatim>\<open>setRequest\<close> (lines 1114 to 1125); \<^verbatim>\<open>int32(req.ContentLength)\<close> keeps
  the low 32 bits.\<close>

definition setRequest :: "HTTP \<Rightarrow> Request \<Rightarrow> HTTP" where
  "setRequest h req =
     h\<lparr>Timestamp := req_netcap_ts req,
       Proto := req_Proto req,
       Method := req_Method req,
       Host := req_Host req,
       UserAgent := escape_commas (req_UserAgent req),
       Referer := escape_commas (req_Referer req),
       ReqContentLength := ucast (req_ContentLength req),
       URL := escape_commas (req_URL req),
       SrcIP := req_netcap_clientip req,
       DstIP := req_netcap_serverip req\<rparr>"

datatype Stream = Stream Flow Flow

text \<open>
  The encoder \<open>d\<close> and the two package maps. \<open>d_aWriter\<close> and \<open>d_csvWriter\<close> hold the
  records handed to \<^verbatim>\<open>d.aWriter.PutProto\<close> and \<^verbatim>\<open>d.csvWriter.WriteRecord\<close> in
  order (an error of a writer is only counted in the error map and changes nothing
  else). A Go map is a list of entries with distinct keys; a range runs through it in
  some order, here the order of the list.
\<close>

record httpState =
  d_numRecords :: "64 word"
  d_csv :: bool
  d_aWriter :: "HTTP list"
  d_csvWriter :: "HTTP list"
  httpResMap :: "(Stream \<times> Response list) list"
  httpReqMap :: "(Stream \<times> Request option list) list"
  total :: "64 word"

text \<open>The record built from a response alone (lines 998 to 1002).\<close>

definition response_record :: "Response \<Rightarrow> HTTP" where
  "response_record res =
     zero_HTTP\<lparr>ResContentLength := ucast (res_ContentLength res),
               ContentType := res_Content_Type res,
               StatusCode := ucast (res_StatusCode res)\<rparr>"

text \<open>The inner loop over the responses of one stream (lines 995 to 1025): the state
  and \<^verbatim>\<open>newRes\<close> after the loop.\<close>

fun range_resArr :: "Response list \<Rightarrow> httpState \<Rightarrow> Response list \<Rightarrow> httpState \<times> Response list" where
  "range_resArr [] d newRes = (d, newRes)"
| "range_resArr (res # rest) d newRes =
     (let h = response_record res
      in case res_Request res of
           Some req \<Rightarrow>
             (let h1 = setRequest h req;
                  d1 = d\<lparr>d_numRecords := d_numRecords d + 1\<rparr>;
                  d2 = (if d_csv d1 then d1\<lparr>d_csvWriter := d_csvWriter d1 @ [h1]\<rparr>
                        else d1\<lparr>d_aWriter := d_aWriter d1 @ [h1]\<rparr>)
              in range_resArr rest (d2\<lparr>total := total d2 + 1\<rparr>) newRes)
         | None \<Rightarrow> range_resArr rest d (newRes @ [res]))"

text \<open>The outer loop over \<^verbatim>\<open>httpResMap\<close> (lines 990 to 1029); the first argument
  holds the entries still to visit, and \<^verbatim>\<open>httpResMap[s] = newRes\<close> replaces the
  entry of the stream.\<close>

fun range_httpResMap :: "(Stream \<times> Response list) list \<Rightarrow> httpState \<Rightarrow> httpState" where
  "range_httpResMap [] d = d"
| "range_httpResMap ((s, resArr) # rest) d =
     (case range_resArr resArr d [] of
        (d1, newRes) \<Rightarrow>
          range_httpResMap rest
            (d1\<lparr>httpResMap := map (\<lambda>(k, v). if k = s then (k, newRes) else (k, v)) (httpResMap d1)\<rparr>))"

text \<open>The inner loop over the requests of one stream (lines 1054 to 1066).\<close>

fun range_reqArr :: "Request option list \<Rightarrow> httpState \<Rightarrow> httpState" where
  "range_reqArr [] d = d"
| "range_reqArr (r # rest) d =
     (let d1 = d\<lparr>total := total d + 1\<rparr>
      in case r of
           Some req \<Rightarrow>
             (let h = setRequest zero_HTTP req;
                  d2 = d1\<lparr>d_numRecords := d_numRecords d1 + 1\<rparr>
              in range_reqArr rest (d2\<lparr>d_aWriter := d_aWriter d2 @ [h]\<rparr>))
         | None \<Rightarrow> range_reqArr rest d1)"

text \<open>The outer loop over \<^verbatim>\<open>httpReqMap\<close> (lines 1052 to 1067).\<close>

fun range_httpReqMap :: "(Stream \<times> Request option list) list \<Rightarrow> httpState \<Rightarrow> httpState" where
  "range_httpReqMap [] d = d"
| "range_httpReqMap ((s, reqArr) # rest) d = range_httpReqMap rest (range_reqArr reqArr d)"

text \<open>
  The pass between \<^verbatim>\<open>reqMutex.Lock()\<close> and the label \<^verbatim>\<open>done\<close> (lines 977 to
  1069) of the function the encoder runs at the end of the capture. The pass over the
  leftover responses (lines 1031 to 1049) is commented out in the source and is
  therefore no part of the program.
\<close>

definition httpEncoder_flush :: "httpState \<Rightarrow> httpState" where
  "httpEncoder_flush d0 =
     (let d = d0\<lparr>total := 0\<rparr>;
          sum = length (httpResMap d) + length (httpReqMap d)
      in if sum = 0 then d
         else
           (let d1 = range_httpResMap (httpResMap d) d
            in range_httpReqMap (httpReqMap d1) d1))"

text \<open>
  What the pass is expected to hand to the writers, read off the two maps: the
  combined record of every response that carries its request, stream by stream; the
  responses without a request, which stay in the map; the request-only record of
  every request of the request map that is not nil; and the number of entries of the
  request map, nil or not.
\<close>

definition combined :: "Response \<Rightarrow> HTTP option" where
  "combined res = map_option (setRequest (response_record res)) (res_Request res)"

definition combined_records :: "(Stream \<times> Response list) list \<Rightarrow> HTTP list" where
  "combined_records m = concat (map (\<lambda>(s, resArr). List.map_filter combined resArr) m)"

definition unmatched_responses :: "(Stream \<times> Response list) list \<Rightarrow> (Stream \<times> Response list) list" where
  "unmatched_responses m = map (\<lambda>(s, resArr). (s, filter (\<lambda>res. res_Request res = None) resArr)) m"

definition request_records :: "(Stream \<times> Request option list) list \<Rightarrow> HTTP list" where
  "request_records m =
     concat (map (\<lambda>(s, reqArr). List.map_filter (map_option (setRequest zero_HTTP)) reqArr) m)"

definition request_slots :: "(Stream \<times> Request option list) list \<Rightarrow> nat" where
  "request_slots m = sum_list (map (\<lambda>(s, reqArr). length reqArr) m)"

subsection \<open>Concrete inputs\<close>

text \<open>Two configurations: one that drops on every rejection and verifies checksums,
  and one with every ignore flag set.\<close>

definition cfg_strict :: Config where
  "cfg_strict = \<lparr>FlushEvery = 2, ClosePendingTimeOut = 5000000000,
     CloseInactiveTimeOut = 86400000000000, AllowMissingInit = False, IgnoreFSMerr = False,
     NoOptCheck = False, Checksum = True, NoDefrag = False, HexDump = False\<rparr>"

definition cfg_lenient :: Config where
  "cfg_lenient = \<lparr>FlushEvery = 2, ClosePendingTimeOut = 5000000000,
     CloseInactiveTimeOut = 86400000000000, AllowMissingInit = True, IgnoreFSMerr = True,
     NoOptCheck = True, Checksum = True, NoDefrag = True, HexDump = False\<rparr>"

definition stats0 :: reassemblyStats where
  "stats0 = \<lparr>ipdefrag = 0, missedBytes = 0, pkt = 0, sz = 0, totalsz = 0, rejectFsm = 0,
     rejectOpt = 0, rejectConnFsm = 0, reassembled = 0, outOfOrderBytes = 0,
     outOfOrderPackets = 0, biggestChunkBytes = 0, biggestChunkPackets = 0, overlapBytes = 0,
     overlapPackets = 0, savedTCPConnections = 0, savedUDPConnections = 0, numSoftware = 0,
     numServices = 0\<rparr>"

definition factory_all :: tcpStreamFactory where
  "factory_all = \<lparr>decodeSSH = True, decodeHTTP = True, decodePOP3 = True\<rparr>"

text \<open>A connection from 10.0.0.1:40000 to 10.0.0.2:80 whose client reader holds one
  request fragment and whose server reader holds one response fragment.\<close>

definition flow_c2s :: Flow where
  "flow_c2s = \<lparr>Src = ''10.0.0.1'', Dst = ''10.0.0.2''\<rparr>"

definition ports_c2s :: Flow where
  "ports_c2s = \<lparr>Src = ''40000'', Dst = ''80''\<rparr>"

definition reader_c :: StreamReader where
  "reader_c = \<lparr>isClient = True, Network = flow_c2s,
     DataSlice = [\<lparr>raw = [71, 69, 84], ac = \<lparr>ac_Timestamp = 100\<rparr>, dir = TCPDirClientToServer\<rparr>],
     DataChan = [], chan_closed = False\<rparr>"

definition reader_s :: StreamReader where
  "reader_s = \<lparr>isClient = False, Network = Reverse flow_c2s,
     DataSlice = [\<lparr>raw = [72, 84, 84, 80], ac = \<lparr>ac_Timestamp = 120\<rparr>, dir = TCPDirServerToClient\<rparr>],
     DataChan = [], chan_closed = False\<rparr>"

definition conn0 :: tcpConnection where
  "conn0 = \<lparr>net = flow_c2s, transport = ports_c2s, fsmerr = False, isHTTP = True,
     isHTTPS = False, isPOP3 = False, isSSH = False,
     ident = ''10.0.0.1->10.0.0.2-40000->80'', client = Some reader_c, server = Some reader_s,
     firstPacket = 100\<rparr>"

text \<open>A segment that every checker rejects, and one that every checker accepts.\<close>

definition seg_bad :: segment where
  "seg_bad = \<lparr>CheckState = False, optchecker_Accept = Some ''bad MSS'', ComputeChecksum = Inr 5\<rparr>"

definition seg_good :: segment where
  "seg_good = \<lparr>CheckState = True, optchecker_Accept = None, ComputeChecksum = Inr 0\<rparr>"

text \<open>A view of three bytes in the client to server direction with nothing skipped.\<close>

definition sg0 :: ScatterGather where
  "sg0 = \<lparr>sg_length = 3, sg_saved = 0, sg_dir = TCPDirClientToServer, sg_start = False,
     sg_end = False, sg_skip = 0, sg_Packets = 1, sg_Chunks = 1, sg_QueuedPackets = 0,
     sg_QueuedBytes = 0, sg_OverlapBytes = 0, sg_OverlapPackets = 0,
     Fetch = (\<lambda>n. take (unat n) [80, 79, 83, 84])\<rparr>"

text \<open>A TCP packet of sixty bytes that is one IPv4 fragment, with a twenty byte
  payload, as it arrives at an engine that has counted one packet so far.\<close>

definition pkt_tcp :: packet where
  "pkt_tcp = \<lparr>Data = replicate 60 0,
     TransportLayer = Some \<lparr>tl_LayerType = LayerTypeTCP, TransportFlow = ports_c2s\<rparr>,
     NetworkFlow = flow_c2s, LayerTCP = Some \<lparr>Payload = replicate 20 0\<rparr>, LayerUDP = False,
     LayerIPv4 = Some \<lparr>Length = 60, ip_Payload = replicate 40 0\<rparr>,
     CaptureInfo_Timestamp = 1000000000000, PacketBuilder = True,
     GetClientHelloBasic = Some ''example.org'',
     DigestHexPacket = ''e7d705a3286e19ea42f587b344ee6865'', DigestHexPacketJa3s = [],
     GetProtocols = [(''TLS'', \<lparr>res_Category = ''Web'', res_Timestamp = ''1000''\<rparr>)]\<rparr>"


text \<open>Lookups that answer with fixed strings, a profile for 10.0.0.1 that has seen
  one packet, and the registry that holds it.\<close>

definition rs0 :: resolvers where
  "rs0 = \<lparr>LookupJa3 = (\<lambda>h. ''unknown client''), LookupGeolocation = (\<lambda>a. ''NL''),
     LookupDNSNameLocal = (\<lambda>a. ''host.local''), LookupDNSNames = (\<lambda>a. []),
     NewProto = (\<lambda>res. \<lparr>Packets = 1, Category = res_Category res\<rparr>), LocalDNS = True\<rparr>"

definition prof0 :: IPProfile where
  "prof0 = \<lparr>Addr = ''10.0.0.1'', NumPackets = 1, Geolocation = ''NL'', DNSNames = [''host.local''],
     TimestampFirst = ''999'', TimestampLast = [], Ja3 = Map.empty, Protocols = Map.empty,
     Bytes = 40,
     SrcPorts = [''40000'' \<mapsto> \<lparr>NumTotal = 40, NumTCP = 1, NumUDP = 0\<rparr>],
     DstPorts = [''443'' \<mapsto> \<lparr>NumTotal = 40, NumTCP = 1, NumUDP = 0\<rparr>],
     SNIs = Map.empty\<rparr>"

definition i0 :: idents where
  "i0 = \<lparr>timestamp = ''1000'', p = pkt_tcp\<rparr>"

definition reg0 :: AtomicIPProfileMap where
  "reg0 = \<lparr>Items = [''10.0.0.1'' \<mapsto> prof0]\<rparr>"

text \<open>One HTTP stream with a response that carries its request, a response without
  a request, and a request map with one parsed request and one nil entry.\<close>

definition stream0 :: Stream where
  "stream0 = Stream flow_c2s ports_c2s"

definition req0 :: Request where
  "req0 = \<lparr>req_netcap_ts = ''1000'', req_Proto = ''HTTP/1.1'', req_Method = ''GET'',
     req_Host = ''example.org'', req_UserAgent = ''curl/7.0, like Gecko'', req_Referer = [],
     req_ContentLength = 0, req_URL = ''/index.html'', req_netcap_clientip = ''10.0.0.1'',
     req_netcap_serverip = ''10.0.0.2''\<rparr>"

definition res_matched :: Response where
  "res_matched = \<lparr>res_ContentLength = 42, res_Content_Type = ''text/html'',
     res_StatusCode = 200, res_Request = Some req0\<rparr>"

definition res_unmatched :: Response where
  "res_unmatched = \<lparr>res_ContentLength = 7, res_Content_Type = ''text/plain'',
     res_StatusCode = 404, res_Request = None\<rparr>"

definition http0 :: httpState where
  "http0 = \<lparr>d_numRecords = 0, d_csv = False, d_aWriter = [], d_csvWriter = [],
     httpResMap = [(stream0, [res_matched, res_unmatched])],
     httpReqMap = [(stream0, [Some req0, None])], total = 0\<rparr>"

definition http_unmatched :: httpState where
  "http_unmatched = \<lparr>d_numRecords = 0, d_csv = False, d_aWriter = [], d_csvWriter = [],
     httpResMap = [(stream0, [res_unmatched])], httpReqMap = [], total = 0\<rparr>"



text \<open>A profile whose counters have all reached the largest value of their type, the
  registry that holds it, and a UDP packet between the same ports.\<close>

definition prof_wrap :: IPProfile where
  "prof_wrap = prof0\<lparr>NumPackets := 9223372036854775807, Bytes := - 1,
     SrcPorts := [''40000'' \<mapsto> \<lparr>NumTotal = - 1, NumTCP = - 1, NumUDP = - 1\<rparr>],
     DstPorts := [''80'' \<mapsto> \<lparr>NumTotal = - 1, NumTCP = - 1, NumUDP = - 1\<rparr>]\<rparr>"

definition reg_wrap :: AtomicIPProfileMap where
  "reg_wrap = \<lparr>Items = [''10.0.0.1'' \<mapsto> prof_wrap]\<rparr>"

definition i_udp :: idents where
  "i_udp = \<lparr>timestamp = ''1001'',
     p = pkt_tcp\<lparr>TransportLayer := Some \<lparr>tl_LayerType = LayerTypeUDP, TransportFlow = ports_c2s\<rparr>,
                 LayerTCP := None, LayerUDP := True\<rparr>\<rparr>"



section \<open>Properties\<close>

subsection \<open>NewWriter\<close>

lemma NewWriter_proto_panic:
  assumes "writeChan" and "b \<or> cm"
  shows "NewWriter env name b cm False outd writeChan m
       = Inl (Panic ''buffering or compression cannot be activated when running using writeChan'')"
  using assms by (auto simp: NewWriter_def NewWriter_proto_def new_Writer_def)

lemma NewWriter_chan_plain:
  "NewWriter env name False False False outd True m
     = Inr ((new_Writer name False False False outd True)
              \<lparr>dWriter := Some (Delimited Chan),
               aWriter := Some (AtomicDelimited (Delimited Chan)),
               cWriter := Some Chan\<rparr>)"
  by (simp add: NewWriter_def NewWriter_proto_def new_Writer_def configure_gzip_def Let_def)

text \<open>
  The protobuf path: with \<open>writeChan\<close> set, buffering or compression makes
  \<^verbatim>\<open>NewWriter\<close> panic, and with both flags off the delimited layer sits on a
  channel writer and there is no file.
\<close>

lemma NewWriter_proto_channel_mode:
  "(writeChan \<and> (b \<or> cm) \<longrightarrow>
      NewWriter env name b cm False outd writeChan m
        = Inl (Panic ''buffering or compression cannot be activated when running using writeChan''))
   \<and> NewWriter env name False False False outd True m
        = Inr ((new_Writer name False False False outd True)
                 \<lparr>dWriter := Some (Delimited Chan),
                  aWriter := Some (AtomicDelimited (Delimited Chan)),
                  cWriter := Some Chan\<rparr>)"
  using NewWriter_proto_panic NewWriter_chan_plain by blast

text \<open>
  The CSV path returns before the check on \<open>writeChan\<close>: it never panics, whatever
  the flags are, and a writer it returns has a file and no channel writer while
  \<^verbatim>\<open>IsChanWriter\<close> repeats the \<open>writeChan\<close> argument.
\<close>

lemma NewWriter_csv_never_panics:
  "NewWriter env name b cm True outd wc m \<noteq> Inl (Panic msg)"
  by (simp add: NewWriter_def NewWriter_csv_def configure_gzip_def Let_def split: option.splits)

lemma NewWriter_csv_no_channel:
  "NewWriter env name b cm True outd wc m = Inr w \<Longrightarrow>
     IsChanWriter w = wc \<and> cWriter w = None \<and> file' w \<noteq> None"
  by (auto simp: NewWriter_def NewWriter_csv_def configure_gzip_def new_Writer_def Let_def
           split: option.splits if_splits)

text \<open>
  C8. The claim asks for a panic whenever \<open>writeChan\<close> comes with buffering or
  compression. The call \<^verbatim>\<open>NewWriter("HTTP", true, false, true, "out", true, 0)\<close>
  (buffer and CSV and channel mode) does not panic: it returns at the end of the CSV
  branch with a buffered CSV writer on the file, \<^verbatim>\<open>IsChanWriter\<close> set and no
  channel writer. The same call without \<open>csv\<close> panics with the message of the guard.
\<close>

theorem NewWriter_csv_channel_no_panic:
  "NewWriter env0 ''HTTP'' True False True ''out'' True 0
     = Inr ((new_Writer ''HTTP'' True False True ''out'' True)
         \<lparr>file' := Some (OsFile ''out'' ''HTTP'' ''.csv''),
          bWriter := Some (Bufio (OsFile ''out'' ''HTTP'' ''.csv'') 10485760),
          csvWriter := Some (CSV (Bufio (OsFile ''out'' ''HTTP'' ''.csv'') 10485760))\<rparr>)
   \<and> IsChanWriter (new_Writer ''HTTP'' True False True ''out'' True) = True
   \<and> cWriter (new_Writer ''HTTP'' True False True ''out'' True) = None
   \<and> NewWriter env0 ''HTTP'' True False False ''out'' True 0
     = Inl (Panic ''buffering or compression cannot be activated when running using writeChan'')"
  by (simp add: NewWriter_def NewWriter_csv_def NewWriter_proto_def new_Writer_def
        configure_gzip_def Let_def env0_def file_of_def CreateFile_def)

lemma NewWriter_proto_ignores_size:
  "NewWriter env name b cm False outd wc m = NewWriter env name b cm False outd wc m'"
  by (simp add: NewWriter_def)

lemma NewWriter_csv_unbuffered_ignores_size:
  "NewWriter env name False cm True outd wc m = NewWriter env name False cm True outd wc m'"
  by (simp add: NewWriter_def NewWriter_csv_def new_Writer_def Let_def)

lemma NewWriter_csv_buffer_size:
  "NewWriter env name True cm True outd wc m = Inr w \<Longrightarrow>
   bWriter w = Some (Bufio (OsFile outd name (if cm then ''.csv.gz'' else ''.csv''))
                           (if m \<le> 0 then DefaultBufferSize env else m))"
  by (auto simp: NewWriter_def NewWriter_csv_def new_Writer_def configure_gzip_def Let_def
        file_of_def CreateFile_def split: if_splits option.splits)

lemma NewWriter_proto_buffer_size:
  "NewWriter env name True cm False outd wc m = Inr w \<Longrightarrow>
   bWriter w = Some (Bufio (OsFile outd name (if cm then ''.ncap.gz'' else ''.ncap''))
                           (DefaultBufferSize env))"
  by (auto simp: NewWriter_def NewWriter_proto_def new_Writer_def configure_gzip_def Let_def
        file_of_def CreateFile_def split: if_splits option.splits)

lemma NewWriter_csv_buffered_returns:
  "SetConcurrency_err env = None \<or> \<not> cm \<Longrightarrow>
   \<exists>w. NewWriter env name True cm True outd wc m = Inr w"
  by (auto simp: NewWriter_def NewWriter_csv_def new_Writer_def configure_gzip_def Let_def
        split: if_splits option.splits)

lemma NewWriter_proto_buffered_returns:
  "SetConcurrency_err env = None \<or> \<not> cm \<Longrightarrow> \<not> wc \<Longrightarrow>
   \<exists>w. NewWriter env name True cm False outd wc m = Inr w"
  by (auto simp: NewWriter_def NewWriter_proto_def new_Writer_def configure_gzip_def Let_def
        split: if_splits option.splits)

text \<open>
  C9. \<open>memBufferSize\<close> matters in the buffered CSV mode only. Without \<open>csv\<close> the
  result of \<^verbatim>\<open>NewWriter\<close> is the same for any two values of it, and so it is in
  the unbuffered CSV mode. A buffered CSV writer has a buffered layer on its file of
  size \<open>memBufferSize\<close>, or of size \<^verbatim>\<open>DefaultBufferSize\<close> when \<open>memBufferSize \<le> 0\<close>; a
  buffered protobuf writer has one of size \<^verbatim>\<open>DefaultBufferSize\<close> whatever
  \<open>memBufferSize\<close> is. Both constructions return a writer when pgzip accepts its
  configuration or no compression is asked for (and, without \<open>csv\<close>, the channel mode
  is off).
\<close>

theorem NewWriter_memBufferSize:
  "NewWriter env name b cm False outd wc m = NewWriter env name b cm False outd wc m'
   \<and> NewWriter env name False cm True outd wc m = NewWriter env name False cm True outd wc m'
   \<and> (\<forall>w. NewWriter env name True cm True outd wc m = Inr w \<longrightarrow>
          bWriter w = Some (Bufio (OsFile outd name (if cm then ''.csv.gz'' else ''.csv''))
                                  (if m \<le> 0 then DefaultBufferSize env else m)))
   \<and> (\<forall>w. NewWriter env name True cm False outd wc m = Inr w \<longrightarrow>
          bWriter w = Some (Bufio (OsFile outd name (if cm then ''.ncap.gz'' else ''.ncap''))
                                  (DefaultBufferSize env)))
   \<and> (SetConcurrency_err env = None \<or> \<not> cm \<longrightarrow>
          (\<exists>w. NewWriter env name True cm True outd wc m = Inr w))
   \<and> ((SetConcurrency_err env = None \<or> \<not> cm) \<and> \<not> wc \<longrightarrow>
          (\<exists>w. NewWriter env name True cm False outd wc m = Inr w))"
  using NewWriter_proto_ignores_size [of env name b cm outd wc m m']
    NewWriter_csv_unbuffered_ignores_size [of env name cm outd wc m m']
    NewWriter_csv_buffer_size [of env name cm outd wc m]
    NewWriter_proto_buffer_size [of env name cm outd wc m]
    NewWriter_csv_buffered_returns [of env cm name outd wc m]
    NewWriter_proto_buffered_returns [of env cm wc name outd m]
  by blast

theorem NewWriter_memBufferSize_witness:
  "(\<exists>w. NewWriter env0 ''HTTP'' True True True ''out'' False 4096 = Inr w
        \<and> bWriter w = Some (Bufio (OsFile ''out'' ''HTTP'' ''.csv.gz'') 4096))
   \<and> (\<exists>w. NewWriter env0 ''HTTP'' True True False ''out'' False 4096 = Inr w
        \<and> bWriter w = Some (Bufio (OsFile ''out'' ''HTTP'' ''.ncap.gz'') 10485760))"
proof -
  have e: "SetConcurrency_err env0 = None" "DefaultBufferSize env0 = 10485760"
    by (simp_all add: env0_def)
  from NewWriter_memBufferSize [of env0 "''HTTP''" True True "''out''" False 4096 4096] e
  show ?thesis by auto
qed

subsection \<open>getIPProfile\<close>

text \<open>
  C10. For every call of \<^verbatim>\<open>getIPProfile\<close> with the empty string as source
  address, whatever the packet, the lookups and the registry are, the result is nil
  and the registry after the call is the registry before it.
\<close>

theorem getIPProfile_empty_address:
  "getIPProfile rs [] i ipProfiles = (None, ipProfiles)"
  by (simp add: getIPProfile_def)

subsection \<open>Accept\<close>

lemma Accept_checksum_cases:
  "Accept_checksum c seg st t =
     (if Checksum c \<and> (case ComputeChecksum seg of Inl e \<Rightarrow> True | Inr ck \<Rightarrow> ck \<noteq> 0)
      then (False, st\<lparr>rejectOpt := rejectOpt st + 1\<rparr>, t) else (True, st, t))"
  by (simp add: Accept_checksum_def split: sum.splits)

lemma Accept_fsm_counters:
  assumes "Accept c seg st t = (b, st', t')"
  shows "rejectFsm st' = rejectFsm st + (if CheckState seg then 0 else 1)"
    and "rejectConnFsm st' = rejectConnFsm st + (if \<not> CheckState seg \<and> \<not> fsmerr t then 1 else 0)"
    and "fsmerr t' = (fsmerr t \<or> \<not> CheckState seg)"
  using assms
  by (auto simp: Accept_def Accept_options_def Accept_checksum_cases Let_def
           split: if_splits option.splits)

lemma Accept_all_fsm:
  "Accept_all c segs st t = (bs, st', t') \<Longrightarrow>
     rejectConnFsm st' = rejectConnFsm st + (if \<not> fsmerr t \<and> (\<exists>s \<in> set segs. \<not> CheckState s) then 1 else 0)
     \<and> fsmerr t' = (fsmerr t \<or> (\<exists>s \<in> set segs. \<not> CheckState s))
     \<and> rejectFsm st' = rejectFsm st + of_nat (length (filter (\<lambda>s. \<not> CheckState s) segs))
     \<and> length bs = length segs"
proof (induction segs arbitrary: st t bs st' t')
  case Nil
  then show ?case by simp
next
  case (Cons seg segs)
  obtain b st1 t1 where a: "Accept c seg st t = (b, st1, t1)" by (cases "Accept c seg st t") auto
  obtain bs' st2 t2 where r: "Accept_all c segs st1 t1 = (bs', st2, t2)"
    by (cases "Accept_all c segs st1 t1") auto
  from Cons.prems a r have e: "bs = b # bs'" "st' = st2" "t' = t2" by auto
  note ih = Cons.IH [OF r]
  note f = Accept_fsm_counters [OF a]
  show ?case unfolding e using ih f by (auto)
qed

lemma Accept_answer:
  assumes "Accept c seg st t = (b, st', t')"
  shows "b = ((CheckState seg \<or> IgnoreFSMerr c)
              \<and> (optchecker_Accept seg = None \<or> NoOptCheck c)
              \<and> \<not> (Checksum c \<and> (case ComputeChecksum seg of Inl e \<Rightarrow> True | Inr ck \<Rightarrow> ck \<noteq> 0)))"
  using assms
  by (auto simp: Accept_def Accept_options_def Accept_checksum_cases Let_def
           split: if_splits option.splits)

lemma Accept_rejectOpt:
  assumes "Accept c seg st t = (b, st', t')"
  shows "rejectOpt st' = rejectOpt st
           + (if (CheckState seg \<or> IgnoreFSMerr c) \<and> optchecker_Accept seg \<noteq> None then 1 else 0)
           + (if (CheckState seg \<or> IgnoreFSMerr c) \<and> (optchecker_Accept seg = None \<or> NoOptCheck c)
                 \<and> Checksum c \<and> (case ComputeChecksum seg of Inl e \<Rightarrow> True | Inr ck \<Rightarrow> ck \<noteq> 0)
              then 1 else 0)"
  using assms
  by (auto simp: Accept_def Accept_options_def Accept_checksum_cases Let_def
           split: if_splits option.splits)

text \<open>
  C2. Let \<^verbatim>\<open>Accept\<close> answer \<open>b\<close> for a segment and leave the statistics \<open>st'\<close> and
  the connection \<open>t'\<close>. A segment the FSM rejects adds one to \<open>rejectFsm\<close>, marks the
  connection, adds one to \<open>rejectConnFsm\<close> exactly when the connection was not yet
  marked, and is answered with false unless \<open>IgnoreFSMerr\<close> is set. A segment the
  option checker rejects (it is consulted when the FSM stage did not return) adds one
  to \<open>rejectOpt\<close> and is answered with false unless \<open>NoOptCheck\<close> is set. With
  \<open>Checksum\<close> set, a checksum that cannot be computed or is not zero (it is computed
  when the two earlier stages did not return) adds one to \<open>rejectOpt\<close> and is answered
  with false. The answer is true exactly when no stage drops the segment. Over all
  segments offered to a connection that starts unmarked, \<open>rejectConnFsm\<close> grows by one
  if the FSM rejects any of them and not at all otherwise.
\<close>

theorem Accept_rejection_stages:
  assumes "Accept c seg st t = (b, st', t')"
  shows
  "(\<not> CheckState seg \<longrightarrow>
      rejectFsm st' = rejectFsm st + 1 \<and> fsmerr t'
      \<and> rejectConnFsm st' = (if fsmerr t then rejectConnFsm st else rejectConnFsm st + 1)
      \<and> (\<not> IgnoreFSMerr c \<longrightarrow> \<not> b \<and> rejectOpt st' = rejectOpt st))
   \<and> (CheckState seg \<longrightarrow>
      rejectFsm st' = rejectFsm st \<and> rejectConnFsm st' = rejectConnFsm st \<and> fsmerr t' = fsmerr t)
   \<and> ((CheckState seg \<or> IgnoreFSMerr c) \<and> optchecker_Accept seg \<noteq> None \<longrightarrow>
        (\<not> NoOptCheck c \<longrightarrow> \<not> b \<and> rejectOpt st' = rejectOpt st + 1)
        \<and> (NoOptCheck c \<longrightarrow> rejectOpt st' = rejectOpt st + 1 + (if b then 0 else 1)))
   \<and> ((CheckState seg \<or> IgnoreFSMerr c) \<and> (optchecker_Accept seg = None \<or> NoOptCheck c)
        \<and> Checksum c \<and> (case ComputeChecksum seg of Inl e \<Rightarrow> True | Inr ck \<Rightarrow> ck \<noteq> 0) \<longrightarrow>
        \<not> b \<and> rejectOpt st' = rejectOpt st + (if optchecker_Accept seg = None then 1 else 2))
   \<and> b = ((CheckState seg \<or> IgnoreFSMerr c)
              \<and> (optchecker_Accept seg = None \<or> NoOptCheck c)
              \<and> \<not> (Checksum c \<and> (case ComputeChecksum seg of Inl e \<Rightarrow> True | Inr ck \<Rightarrow> ck \<noteq> 0)))
   \<and> (\<not> fsmerr t \<longrightarrow>
        rejectConnFsm (fst (snd (Accept_all c segs st t)))
          = rejectConnFsm st + (if \<exists>s \<in> set segs. \<not> CheckState s then 1 else 0))"
proof -
  note f = Accept_fsm_counters [OF assms]
  note a = Accept_answer [OF assms]
  note r = Accept_rejectOpt [OF assms]
  have 1: "\<not> CheckState seg \<longrightarrow>
      rejectFsm st' = rejectFsm st + 1 \<and> fsmerr t'
      \<and> rejectConnFsm st' = (if fsmerr t then rejectConnFsm st else rejectConnFsm st + 1)
      \<and> (\<not> IgnoreFSMerr c \<longrightarrow> \<not> b \<and> rejectOpt st' = rejectOpt st)"
    using f a r by auto
  have 2: "CheckState seg \<longrightarrow>
      rejectFsm st' = rejectFsm st \<and> rejectConnFsm st' = rejectConnFsm st \<and> fsmerr t' = fsmerr t"
    using f by auto
  have 3: "(CheckState seg \<or> IgnoreFSMerr c) \<and> optchecker_Accept seg \<noteq> None \<longrightarrow>
        (\<not> NoOptCheck c \<longrightarrow> \<not> b \<and> rejectOpt st' = rejectOpt st + 1)
        \<and> (NoOptCheck c \<longrightarrow> rejectOpt st' = rejectOpt st + 1 + (if b then 0 else 1))"
    using a r by auto
  have 4: "(CheckState seg \<or> IgnoreFSMerr c) \<and> (optchecker_Accept seg = None \<or> NoOptCheck c)
        \<and> Checksum c \<and> (case ComputeChecksum seg of Inl e \<Rightarrow> True | Inr ck \<Rightarrow> ck \<noteq> 0) \<longrightarrow>
        \<not> b \<and> rejectOpt st' = rejectOpt st + (if optchecker_Accept seg = None then 1 else 2)"
    using a r by auto
  have 5: "\<not> fsmerr t \<longrightarrow>
        rejectConnFsm (fst (snd (Accept_all c segs st t)))
          = rejectConnFsm st + (if \<exists>s \<in> set segs. \<not> CheckState s then 1 else 0)"
  proof
    assume n: "\<not> fsmerr t"
    obtain bs st2 t2 where e: "Accept_all c segs st t = (bs, st2, t2)"
      by (cases "Accept_all c segs st t") auto
    from Accept_all_fsm [OF e] n show "rejectConnFsm (fst (snd (Accept_all c segs st t)))
          = rejectConnFsm st + (if \<exists>s \<in> set segs. \<not> CheckState s then 1 else 0)"
      by (simp add: e)
  qed
  from 1 2 3 4 5 a show ?thesis by blast
qed

theorem Accept_rejection_stages_witness:
  "Accept cfg_lenient seg_bad stats0 conn0
     = (False, stats0\<lparr>rejectFsm := 1, rejectOpt := 2, rejectConnFsm := 1\<rparr>, conn0\<lparr>fsmerr := True\<rparr>)
   \<and> rejectConnFsm (fst (snd (Accept_all cfg_lenient [seg_good, seg_bad, seg_bad] stats0 conn0))) = 1"
proof -
  have e: "Accept cfg_lenient seg_bad stats0 conn0
     = (False, stats0\<lparr>rejectFsm := 1, rejectOpt := 2, rejectConnFsm := 1\<rparr>, conn0\<lparr>fsmerr := True\<rparr>)"
    by (simp add: Accept_def Accept_options_def Accept_checksum_def cfg_lenient_def seg_bad_def
          stats0_def conn0_def)
  from Accept_rejection_stages [OF e, of "[seg_good, seg_bad, seg_bad]"]
  have "rejectConnFsm (fst (snd (Accept_all cfg_lenient [seg_good, seg_bad, seg_bad] stats0 conn0)))
          = rejectConnFsm stats0 + (if \<exists>s \<in> set [seg_good, seg_bad, seg_bad]. \<not> CheckState s then 1 else 0)"
    by (simp add: conn0_def)
  then have "rejectConnFsm (fst (snd (Accept_all cfg_lenient [seg_good, seg_bad, seg_bad] stats0 conn0))) = 1"
    by (simp add: stats0_def seg_bad_def)
  with e show ?thesis by simp
qed


subsection \<open>ReassembledSG\<close>

lemma go_copy_fresh: "go_copy (replicate (length xs) z) xs = (xs, length xs)"
  by (simp add: go_copy_def)

lemma feedData_client:
  "client t = Some r \<Longrightarrow> \<not> chan_closed r \<Longrightarrow>
   feedData t TCPDirClientToServer xs cx
     = Inr (t\<lparr>client := Some (r\<lparr>DataChan := DataChan r @
               [\<lparr>raw = xs, ac = cx, dir = TCPDirClientToServer\<rparr>]\<rparr>)\<rparr>)"
  by (simp add: feedData_def go_copy_fresh send_def)

lemma feedData_server:
  "d \<noteq> TCPDirClientToServer \<Longrightarrow> server t = Some r \<Longrightarrow> \<not> chan_closed r \<Longrightarrow>
   feedData t d xs cx
     = Inr (t\<lparr>server := Some (r\<lparr>DataChan := DataChan r @ [\<lparr>raw = xs, ac = cx, dir = d\<rparr>]\<rparr>)\<rparr>)"
  by (simp add: feedData_def go_copy_fresh send_def)

text \<open>The length check of \<^verbatim>\<open>feedData\<close> never fires: the copy is as long as the
  data.\<close>

lemma feedData_never_fatal: "feedData t d xs cx \<noteq> Inl (Fatal msg)"
  by (auto simp: feedData_def go_copy_fresh send_def split: option.splits sum.splits)

text \<open>Without a reader for the direction, or with its channel closed, the send
  panics.\<close>

lemma feedData_panics:
  "(d = TCPDirClientToServer \<and> (client t = None \<or> (\<exists>r. client t = Some r \<and> chan_closed r))
    \<or> d \<noteq> TCPDirClientToServer \<and> (server t = None \<or> (\<exists>r. server t = Some r \<and> chan_closed r)))
   \<Longrightarrow> \<exists>msg. feedData t d xs cx = Inl (Panic msg)"
  by (auto simp: feedData_def go_copy_fresh send_def)

lemma feedData_Inr:
  "feedData t d xs cx = Inr t' \<Longrightarrow>
     (d = TCPDirClientToServer \<longrightarrow> (\<exists>r. client t = Some r \<and> \<not> chan_closed r
         \<and> t' = t\<lparr>client := Some (r\<lparr>DataChan := DataChan r @ [\<lparr>raw = xs, ac = cx, dir = d\<rparr>]\<rparr>)\<rparr>))
   \<and> (d \<noteq> TCPDirClientToServer \<longrightarrow> (\<exists>r. server t = Some r \<and> \<not> chan_closed r
         \<and> t' = t\<lparr>server := Some (r\<lparr>DataChan := DataChan r @ [\<lparr>raw = xs, ac = cx, dir = d\<rparr>]\<rparr>)\<rparr>))"
  by (auto simp: feedData_def go_copy_fresh send_def split: option.splits sum.splits if_splits)

lemma ReassembledSG_cases:
  "ReassembledSG c sf sg cx st t =
     (if (sg_skip sg = 0 \<or> sg_skip sg = - 1 \<and> AllowMissingInit c) \<and> 0 < sint (sg_length sg)
         \<and> \<not> isHTTPS t
         \<and> \<not> (isSSH t \<and> \<not> decodeSSH sf) \<and> \<not> (isHTTP t \<and> \<not> decodeHTTP sf)
         \<and> \<not> (isPOP3 t \<and> \<not> decodePOP3 sf)
      then (case feedData t (sg_dir sg) (Fetch sg (sg_length sg)) cx of
              Inl e \<Rightarrow> Inl e | Inr t' \<Rightarrow> Inr (updateStats sg st, t'))
      else Inr (updateStats sg st, t))"
  by (auto simp: ReassembledSG_def ReassembledSG_feed_def Let_def)

lemma DataChan_grows: "r\<lparr>DataChan := DataChan r @ [d]\<rparr> \<noteq> r"
proof
  assume "r\<lparr>DataChan := DataChan r @ [d]\<rparr> = r"
  then have "DataChan (r\<lparr>DataChan := DataChan r @ [d]\<rparr>) = DataChan r" by simp
  then show False by simp
qed

text \<open>
  C3. Write \<open>deliver\<close> for: \<open>skip\<close> is 0, or \<open>skip\<close> is -1 and \<open>AllowMissingInit\<close> is
  set; \<open>length\<close> is positive; the connection is not marked HTTPS; and its protocol is
  not disabled. For every call of \<^verbatim>\<open>ReassembledSG\<close> on a connection whose reader
  for the direction of the view exists and has an open channel: if \<open>deliver\<close> holds,
  the call returns, and the reader of the direction (the client reader for client to
  server, the server reader otherwise) has received, at the end of its channel, one
  fragment that holds the bytes fetched from the view together with the context and
  the direction, nothing else in the connection being changed; if \<open>deliver\<close> does
  not hold, the call returns with the connection as it was. In both cases the
  statistics are updated. Whenever a call returns, a reader has changed exactly when
  \<open>deliver\<close> holds.
\<close>

theorem ReassembledSG_delivery:
  "(let deliver = ((sg_skip sg = 0 \<or> sg_skip sg = - 1 \<and> AllowMissingInit c)
                   \<and> 0 < sint (sg_length sg) \<and> \<not> isHTTPS t
                   \<and> \<not> (isSSH t \<and> \<not> decodeSSH sf) \<and> \<not> (isHTTP t \<and> \<not> decodeHTTP sf)
                   \<and> \<not> (isPOP3 t \<and> \<not> decodePOP3 sf))
    in (deliver \<and> sg_dir sg = TCPDirClientToServer \<and> client t = Some r \<and> \<not> chan_closed r \<longrightarrow>
          ReassembledSG c sf sg cx st t
            = Inr (updateStats sg st,
                   t\<lparr>client := Some (r\<lparr>DataChan := DataChan r @
                       [\<lparr>raw = Fetch sg (sg_length sg), ac = cx, dir = TCPDirClientToServer\<rparr>]\<rparr>)\<rparr>))
     \<and> (deliver \<and> sg_dir sg \<noteq> TCPDirClientToServer \<and> server t = Some r \<and> \<not> chan_closed r \<longrightarrow>
          ReassembledSG c sf sg cx st t
            = Inr (updateStats sg st,
                   t\<lparr>server := Some (r\<lparr>DataChan := DataChan r @
                       [\<lparr>raw = Fetch sg (sg_length sg), ac = cx, dir = sg_dir sg\<rparr>]\<rparr>)\<rparr>))
     \<and> (\<not> deliver \<longrightarrow> ReassembledSG c sf sg cx st t = Inr (updateStats sg st, t))
     \<and> (\<forall>st' t'. ReassembledSG c sf sg cx st t = Inr (st', t') \<longrightarrow>
           ((client t' \<noteq> client t \<or> server t' \<noteq> server t) \<longleftrightarrow> deliver)))"
proof -
  define deliver where "deliver \<longleftrightarrow>
     (sg_skip sg = 0 \<or> sg_skip sg = - 1 \<and> AllowMissingInit c) \<and> 0 < sint (sg_length sg)
     \<and> \<not> isHTTPS t
     \<and> \<not> (isSSH t \<and> \<not> decodeSSH sf) \<and> \<not> (isHTTP t \<and> \<not> decodeHTTP sf)
     \<and> \<not> (isPOP3 t \<and> \<not> decodePOP3 sf)"
  have cases: "ReassembledSG c sf sg cx st t =
     (if deliver
      then (case feedData t (sg_dir sg) (Fetch sg (sg_length sg)) cx of
              Inl e \<Rightarrow> Inl e | Inr t' \<Rightarrow> Inr (updateStats sg st, t'))
      else Inr (updateStats sg st, t))"
    unfolding deliver_def by (rule ReassembledSG_cases)
  have 1: "deliver \<and> sg_dir sg = TCPDirClientToServer \<and> client t = Some r \<and> \<not> chan_closed r \<longrightarrow>
      ReassembledSG c sf sg cx st t
        = Inr (updateStats sg st,
               t\<lparr>client := Some (r\<lparr>DataChan := DataChan r @
                   [\<lparr>raw = Fetch sg (sg_length sg), ac = cx, dir = TCPDirClientToServer\<rparr>]\<rparr>)\<rparr>)"
    by (simp add: cases feedData_client)
  have 2: "deliver \<and> sg_dir sg \<noteq> TCPDirClientToServer \<and> server t = Some r \<and> \<not> chan_closed r \<longrightarrow>
      ReassembledSG c sf sg cx st t
        = Inr (updateStats sg st,
               t\<lparr>server := Some (r\<lparr>DataChan := DataChan r @
                   [\<lparr>raw = Fetch sg (sg_length sg), ac = cx, dir = sg_dir sg\<rparr>]\<rparr>)\<rparr>)"
    by (simp add: cases feedData_server)
  have 3: "\<not> deliver \<longrightarrow> ReassembledSG c sf sg cx st t = Inr (updateStats sg st, t)"
    by (simp add: cases)
  have 4: "\<forall>st' t'. ReassembledSG c sf sg cx st t = Inr (st', t') \<longrightarrow>
         ((client t' \<noteq> client t \<or> server t' \<noteq> server t) \<longleftrightarrow> deliver)"
  proof (intro allI impI)
    fix st' t' assume e: "ReassembledSG c sf sg cx st t = Inr (st', t')"
    show "(client t' \<noteq> client t \<or> server t' \<noteq> server t) \<longleftrightarrow> deliver"
    proof (cases deliver)
      case False
      with 3 e show ?thesis by simp
    next
      case True
      with e cases obtain t2
        where f: "feedData t (sg_dir sg) (Fetch sg (sg_length sg)) cx = Inr t2" and "t' = t2"
        by (auto split: sum.splits)
      with feedData_Inr [OF f] True show ?thesis
        by (cases "sg_dir sg = TCPDirClientToServer") (auto simp: DataChan_grows)
    qed
  qed
  from 1 2 3 4 have "(deliver \<and> sg_dir sg = TCPDirClientToServer \<and> client t = Some r \<and> \<not> chan_closed r \<longrightarrow>
          ReassembledSG c sf sg cx st t
            = Inr (updateStats sg st,
                   t\<lparr>client := Some (r\<lparr>DataChan := DataChan r @
                       [\<lparr>raw = Fetch sg (sg_length sg), ac = cx, dir = TCPDirClientToServer\<rparr>]\<rparr>)\<rparr>))
     \<and> (deliver \<and> sg_dir sg \<noteq> TCPDirClientToServer \<and> server t = Some r \<and> \<not> chan_closed r \<longrightarrow>
          ReassembledSG c sf sg cx st t
            = Inr (updateStats sg st,
                   t\<lparr>server := Some (r\<lparr>DataChan := DataChan r @
                       [\<lparr>raw = Fetch sg (sg_length sg), ac = cx, dir = sg_dir sg\<rparr>]\<rparr>)\<rparr>))
     \<and> (\<not> deliver \<longrightarrow> ReassembledSG c sf sg cx st t = Inr (updateStats sg st, t))
     \<and> (\<forall>st' t'. ReassembledSG c sf sg cx st t = Inr (st', t') \<longrightarrow>
           ((client t' \<noteq> client t \<or> server t' \<noteq> server t) \<longleftrightarrow> deliver))"
    by blast
  then show ?thesis unfolding deliver_def Let_def .
qed

theorem ReassembledSG_delivery_witness:
  "ReassembledSG cfg_strict factory_all sg0 \<lparr>ac_Timestamp = 130\<rparr> stats0 conn0
     = Inr (updateStats sg0 stats0,
            conn0\<lparr>client := Some (reader_c\<lparr>DataChan :=
                [\<lparr>raw = [80, 79, 83], ac = \<lparr>ac_Timestamp = 130\<rparr>, dir = TCPDirClientToServer\<rparr>]\<rparr>)\<rparr>)"
proof -
  have f: "Fetch sg0 (sg_length sg0) = [80, 79, 83]"
    by (simp add: sg0_def)
  have h: "sg_skip sg0 = 0" "0 < sint (sg_length sg0)" "sg_dir sg0 = TCPDirClientToServer"
    "\<not> isHTTPS conn0" "\<not> isSSH conn0" "\<not> isPOP3 conn0" "decodeHTTP factory_all"
    "client conn0 = Some reader_c" "\<not> chan_closed reader_c" "DataChan reader_c = []"
    by (simp_all add: sg0_def conn0_def factory_all_def reader_c_def)
  from ReassembledSG_delivery [of sg0 cfg_strict conn0 factory_all reader_c "\<lparr>ac_Timestamp = 130\<rparr>" stats0]
  show ?thesis by (simp add: Let_def h f)
qed

subsection \<open>The first block of ReassemblyComplete\<close>







subsection \<open>ReassemblePacket\<close>














subsection \<open>getIPProfile on a known address\<close>

lemma word_le_succ: "(x::'a::len word) \<noteq> - 1 \<Longrightarrow> x \<le> x + 1"
  using inc_less_eq_self_iff_eq by fastforce

lemma word_le_add_of_nat:
  assumes "unat (x::64 word) + n < 2 ^ 64"
  shows "x \<le> x + of_nat n"
proof -
  from assms have n: "n < 2 ^ 64" by simp
  then have "unat (of_nat n :: 64 word) = n" by (simp add: unat_of_nat)
  with assms have "unat (x + of_nat n) = unat x + n"
    by (simp add: unat_word_ariths)
  then show ?thesis by (simp add: word_le_nat_alt)
qed

lemma sint_le_succ:
  assumes "sint (x::64 word) < 2 ^ 63 - 1"
  shows "sint x \<le> sint (x + 1)"
proof -
  have lo: "- (2 ^ 63) \<le> sint x" using sint_ge [of x] by simp
  have "sint (x + 1) = signed_take_bit 63 (sint x + 1)"
    by (simp add: sint_word_ariths)
  also have "\<dots> = sint x + 1"
    using lo assms by (intro signed_take_bit_int_eq_self) simp_all
  finally show ?thesis by simp
qed

lemma count_layer_fields:
  "NumTotal (count_layer lt port) = NumTotal port"
  "NumTCP (count_layer lt port) = (if lt = LayerTypeTCP then NumTCP port + 1 else NumTCP port)"
  "NumUDP (count_layer lt port) = (if lt = LayerTypeUDP then NumUDP port + 1 else NumUDP port)"
  by (simp_all add: count_layer_def)

lemma dom_update_port: "dom (update_port ports key dl lt) = insert key (dom ports)"
  by (auto simp: update_port_def split: option.splits)

lemma update_port_mono:
  assumes "ports k = Some port"
  shows "\<exists>port'. update_port ports key (of_nat n) lt k = Some port'
           \<and> (unat (NumTotal port) + n < 2 ^ 64 \<longrightarrow> NumTotal port \<le> NumTotal port')
           \<and> (NumTCP port \<noteq> - 1 \<longrightarrow> NumTCP port \<le> NumTCP port')
           \<and> (NumUDP port \<noteq> - 1 \<longrightarrow> NumUDP port \<le> NumUDP port')"
proof (cases "k = key")
  case False
  with assms show ?thesis by (simp add: update_port_def split: option.splits)
next
  case True
  with assms have "update_port ports key (of_nat n) lt k
      = Some (count_layer lt (port\<lparr>NumTotal := NumTotal port + of_nat n\<rparr>))"
    by (simp add: update_port_def)
  then show ?thesis
    by (simp add: count_layer_fields word_le_add_of_nat word_le_succ)
qed

lemma dom_update_protocols: "dom protos \<subseteq> dom (update_protocols rs xs protos)"
proof (induction xs arbitrary: protos)
  case Nil
  then show ?case by simp
next
  case (Cons x xs)
  obtain proto res where x: "x = (proto, res)" by (cases x)
  have "dom protos \<subseteq> dom (case protos proto of
          Some prot \<Rightarrow> protos(proto \<mapsto> prot\<lparr>Packets := Packets prot + 1\<rparr>)
        | None \<Rightarrow> protos(proto \<mapsto> NewProto rs res))"
    by (auto split: option.splits)
  also have "\<dots> \<subseteq> dom (update_protocols rs (x # xs) protos)"
    unfolding x update_protocols.simps by (rule Cons.IH)
  finally show ?case .
qed


lemma update_profile_counters:
  "NumPackets (update_profile rs i ip0) = NumPackets ip0 + 1"
  "Bytes (update_profile rs i ip0) = Bytes ip0 + of_nat (length (Data (p i)))"
  by (cases "TransportLayer (p i)"; cases "GetClientHelloBasic (p i)";
      simp add: update_profile_def Let_def)+

lemma update_profile_SrcPorts:
  "SrcPorts (update_profile rs i ip0) =
     (case TransportLayer (p i) of None \<Rightarrow> SrcPorts ip0
      | Some tl0 \<Rightarrow> update_port (SrcPorts ip0) (Src (TransportFlow tl0))
                       (of_nat (length (Data (p i)))) (tl_LayerType tl0))"
  by (cases "TransportLayer (p i)"; cases "GetClientHelloBasic (p i)")
     (simp_all add: update_profile_def Let_def)

lemma update_profile_DstPorts:
  "DstPorts (update_profile rs i ip0) =
     (case TransportLayer (p i) of None \<Rightarrow> DstPorts ip0
      | Some tl0 \<Rightarrow> update_port (DstPorts ip0) (Dst (TransportFlow tl0))
                       (of_nat (length (Data (p i)))) (tl_LayerType tl0))"
  by (cases "TransportLayer (p i)"; cases "GetClientHelloBasic (p i)")
     (simp_all add: update_profile_def Let_def)

lemma update_profile_SNIs:
  "SNIs (update_profile rs i ip0) =
     (case GetClientHelloBasic (p i) of None \<Rightarrow> SNIs ip0
      | Some sni \<Rightarrow> if sni \<noteq> [] then (SNIs ip0)(sni \<mapsto>
                               (case SNIs ip0 sni of Some n \<Rightarrow> n | None \<Rightarrow> 0) + 1) else SNIs ip0)"
  by (cases "TransportLayer (p i)"; cases "GetClientHelloBasic (p i)")
     (simp_all add: update_profile_def Let_def)

lemma update_profile_Ja3:
  "Ja3 (update_profile rs i ip0) =
     (if ja3Hash (p i) \<noteq> [] \<and> Ja3 ip0 (ja3Hash (p i)) = None
      then (Ja3 ip0)(ja3Hash (p i) \<mapsto> LookupJa3 rs (ja3Hash (p i))) else Ja3 ip0)"
  by (cases "TransportLayer (p i)"; cases "GetClientHelloBasic (p i)";
      cases "Ja3 ip0 (ja3Hash (p i))")
     (simp_all add: update_profile_def Let_def)

lemma update_profile_Protocols:
  "Protocols (update_profile rs i ip0) = update_protocols rs (GetProtocols (p i)) (Protocols ip0)"
  by (cases "TransportLayer (p i)"; cases "GetClientHelloBasic (p i)")
     (simp_all add: update_profile_def Let_def)

lemmas update_profile_fields = update_profile_counters update_profile_SrcPorts
  update_profile_DstPorts update_profile_SNIs update_profile_Ja3 update_profile_Protocols

lemma update_profile_domains:
  "dom (SrcPorts ip0) \<subseteq> dom (SrcPorts (update_profile rs i ip0))"
  "dom (DstPorts ip0) \<subseteq> dom (DstPorts (update_profile rs i ip0))"
  "dom (Ja3 ip0) \<subseteq> dom (Ja3 (update_profile rs i ip0))"
  "dom (SNIs ip0) \<subseteq> dom (SNIs (update_profile rs i ip0))"
  "dom (Protocols ip0) \<subseteq> dom (Protocols (update_profile rs i ip0))"
proof -
  show "dom (SrcPorts ip0) \<subseteq> dom (SrcPorts (update_profile rs i ip0))"
    by (cases "TransportLayer (p i)") (auto simp: update_profile_SrcPorts dom_update_port)
  show "dom (DstPorts ip0) \<subseteq> dom (DstPorts (update_profile rs i ip0))"
    by (cases "TransportLayer (p i)") (auto simp: update_profile_DstPorts dom_update_port)
  show "dom (Ja3 ip0) \<subseteq> dom (Ja3 (update_profile rs i ip0))"
    by (auto simp: update_profile_Ja3)
  show "dom (SNIs ip0) \<subseteq> dom (SNIs (update_profile rs i ip0))"
    by (cases "GetClientHelloBasic (p i)") (auto simp: update_profile_SNIs)
  show "dom (Protocols ip0) \<subseteq> dom (Protocols (update_profile rs i ip0))"
    by (simp add: update_profile_Protocols dom_update_protocols)
qed

lemma update_profile_src_port:
  assumes "SrcPorts ip0 k = Some port"
  shows "\<exists>port'. SrcPorts (update_profile rs i ip0) k = Some port'
           \<and> (unat (NumTotal port) + length (Data (p i)) < 2 ^ 64 \<longrightarrow> NumTotal port \<le> NumTotal port')
           \<and> (NumTCP port \<noteq> - 1 \<longrightarrow> NumTCP port \<le> NumTCP port')
           \<and> (NumUDP port \<noteq> - 1 \<longrightarrow> NumUDP port \<le> NumUDP port')"
proof (cases "TransportLayer (p i)")
  case None
  with assms show ?thesis by (simp add: update_profile_SrcPorts)
next
  case (Some tl0)
  then show ?thesis
    using assms update_port_mono [where ports = "SrcPorts ip0" and k = k and port = port
        and key = "Src (TransportFlow tl0)" and n = "length (Data (p i))" and lt = "tl_LayerType tl0"]
    by (simp add: update_profile_SrcPorts)
qed

lemma update_profile_dst_port:
  assumes "DstPorts ip0 k = Some port"
  shows "\<exists>port'. DstPorts (update_profile rs i ip0) k = Some port'
           \<and> (unat (NumTotal port) + length (Data (p i)) < 2 ^ 64 \<longrightarrow> NumTotal port \<le> NumTotal port')
           \<and> (NumTCP port \<noteq> - 1 \<longrightarrow> NumTCP port \<le> NumTCP port')
           \<and> (NumUDP port \<noteq> - 1 \<longrightarrow> NumUDP port \<le> NumUDP port')"
proof (cases "TransportLayer (p i)")
  case None
  with assms show ?thesis by (simp add: update_profile_DstPorts)
next
  case (Some tl0)
  then show ?thesis
    using assms update_port_mono [where ports = "DstPorts ip0" and k = k and port = port
        and key = "Dst (TransportFlow tl0)" and n = "length (Data (p i))" and lt = "tl_LayerType tl0"]
    by (simp add: update_profile_DstPorts)
qed

lemma getIPProfile_existing:
  "a \<noteq> [] \<Longrightarrow> Items reg a = Some ip0 \<Longrightarrow>
   getIPProfile rs a i reg
     = (Some (update_profile rs i ip0), reg\<lparr>Items := (Items reg)(a \<mapsto> update_profile rs i ip0)\<rparr>)"
  by (simp add: getIPProfile_def Let_def)

lemma getIPProfile_new:
  "a \<noteq> [] \<Longrightarrow> Items reg a = None \<Longrightarrow>
   getIPProfile rs a i reg
     = (Some (new_profile rs a i), reg\<lparr>Items := (Items reg)(a \<mapsto> new_profile rs a i)\<rparr>)"
  by (simp add: getIPProfile_def Let_def)

lemma getIPProfile_empty: "getIPProfile rs [] i reg = (None, reg)"
  by (simp add: getIPProfile_def)

lemma getIPProfile_keeps_entries:
  "dom (Items reg) \<subseteq> dom (Items (snd (getIPProfile rs a i reg)))"
proof (cases "a = []")
  case True
  then show ?thesis by (simp add: getIPProfile_empty)
next
  case False
  show ?thesis
  proof (cases "Items reg a")
    case None
    with False show ?thesis by (simp add: getIPProfile_new subset_insertI)
  next
    case (Some ip0)
    with False show ?thesis by (simp add: getIPProfile_existing subset_insertI)
  qed
qed


text \<open>
  C6, as the code has it. A call of \<^verbatim>\<open>getIPProfile\<close> for a source address that has
  a profile returns the updated profile and stores it under the same address. As long
  as the counter concerned does not wrap around (the packet counter is below
  \<open>2^63 - 1\<close>, the byte counter and a port's byte total plus the packet length stay
  below \<open>2^64\<close>, a port's TCP or UDP count is below \<open>2^64 - 1\<close>), the packet counter,
  the byte counter and the three counters of every port that was in the source-port
  or destination-port map are no smaller after the call than before. Every key of the
  source-port, destination-port, JA3, SNI and DPI protocol maps is still a key after
  the call. Every call, for any address, leaves every address of the registry in the
  registry.
\<close>

theorem getIPProfile_monotone:
  "(a \<noteq> [] \<and> Items reg a = Some ip0 \<longrightarrow>
      getIPProfile rs a i reg
        = (Some (update_profile rs i ip0),
           reg\<lparr>Items := (Items reg)(a \<mapsto> update_profile rs i ip0)\<rparr>)
      \<and> (sint (NumPackets ip0) < 2 ^ 63 - 1 \<longrightarrow>
            sint (NumPackets ip0) \<le> sint (NumPackets (update_profile rs i ip0)))
      \<and> (unat (Bytes ip0) + length (Data (p i)) < 2 ^ 64 \<longrightarrow>
            Bytes ip0 \<le> Bytes (update_profile rs i ip0))
      \<and> (\<forall>k port. SrcPorts ip0 k = Some port \<longrightarrow>
            (\<exists>port'. SrcPorts (update_profile rs i ip0) k = Some port'
               \<and> (unat (NumTotal port) + length (Data (p i)) < 2 ^ 64 \<longrightarrow>
                     NumTotal port \<le> NumTotal port')
               \<and> (NumTCP port \<noteq> - 1 \<longrightarrow> NumTCP port \<le> NumTCP port')
               \<and> (NumUDP port \<noteq> - 1 \<longrightarrow> NumUDP port \<le> NumUDP port')))
      \<and> (\<forall>k port. DstPorts ip0 k = Some port \<longrightarrow>
            (\<exists>port'. DstPorts (update_profile rs i ip0) k = Some port'
               \<and> (unat (NumTotal port) + length (Data (p i)) < 2 ^ 64 \<longrightarrow>
                     NumTotal port \<le> NumTotal port')
               \<and> (NumTCP port \<noteq> - 1 \<longrightarrow> NumTCP port \<le> NumTCP port')
               \<and> (NumUDP port \<noteq> - 1 \<longrightarrow> NumUDP port \<le> NumUDP port')))
      \<and> dom (SrcPorts ip0) \<subseteq> dom (SrcPorts (update_profile rs i ip0))
      \<and> dom (DstPorts ip0) \<subseteq> dom (DstPorts (update_profile rs i ip0))
      \<and> dom (Ja3 ip0) \<subseteq> dom (Ja3 (update_profile rs i ip0))
      \<and> dom (SNIs ip0) \<subseteq> dom (SNIs (update_profile rs i ip0))
      \<and> dom (Protocols ip0) \<subseteq> dom (Protocols (update_profile rs i ip0)))
   \<and> dom (Items reg) \<subseteq> dom (Items (snd (getIPProfile rs a i reg)))"
proof -
  have ports: "\<forall>k port. SrcPorts ip0 k = Some port \<longrightarrow>
            (\<exists>port'. SrcPorts (update_profile rs i ip0) k = Some port'
               \<and> (unat (NumTotal port) + length (Data (p i)) < 2 ^ 64 \<longrightarrow>
                     NumTotal port \<le> NumTotal port')
               \<and> (NumTCP port \<noteq> - 1 \<longrightarrow> NumTCP port \<le> NumTCP port')
               \<and> (NumUDP port \<noteq> - 1 \<longrightarrow> NumUDP port \<le> NumUDP port'))"
    using update_profile_src_port by blast
  have dports: "\<forall>k port. DstPorts ip0 k = Some port \<longrightarrow>
            (\<exists>port'. DstPorts (update_profile rs i ip0) k = Some port'
               \<and> (unat (NumTotal port) + length (Data (p i)) < 2 ^ 64 \<longrightarrow>
                     NumTotal port \<le> NumTotal port')
               \<and> (NumTCP port \<noteq> - 1 \<longrightarrow> NumTCP port \<le> NumTCP port')
               \<and> (NumUDP port \<noteq> - 1 \<longrightarrow> NumUDP port \<le> NumUDP port'))"
    using update_profile_dst_port by blast
  have np: "sint (NumPackets ip0) < 2 ^ 63 - 1 \<longrightarrow>
            sint (NumPackets ip0) \<le> sint (NumPackets (update_profile rs i ip0))"
    by (simp add: update_profile_counters sint_le_succ)
  have bytes: "unat (Bytes ip0) + length (Data (p i)) < 2 ^ 64 \<longrightarrow>
            Bytes ip0 \<le> Bytes (update_profile rs i ip0)"
    by (simp add: update_profile_counters word_le_add_of_nat)
  have ex: "a \<noteq> [] \<and> Items reg a = Some ip0 \<longrightarrow>
      getIPProfile rs a i reg
        = (Some (update_profile rs i ip0),
           reg\<lparr>Items := (Items reg)(a \<mapsto> update_profile rs i ip0)\<rparr>)"
    using getIPProfile_existing by blast
  note d = update_profile_domains [of ip0 rs i]
  from ex np bytes ports dports d getIPProfile_keeps_entries [of reg rs a i]
  show ?thesis by blast
qed

theorem getIPProfile_monotone_witness:
  "getIPProfile rs0 ''10.0.0.1'' i0 reg0
     = (Some (update_profile rs0 i0 prof0),
        reg0\<lparr>Items := (Items reg0)(''10.0.0.1'' \<mapsto> update_profile rs0 i0 prof0)\<rparr>)
   \<and> sint (NumPackets prof0) \<le> sint (NumPackets (update_profile rs0 i0 prof0))
   \<and> Bytes prof0 \<le> Bytes (update_profile rs0 i0 prof0)"
proof -
  have h: "Items reg0 ''10.0.0.1'' = Some prof0" "sint (NumPackets prof0) < 2 ^ 63 - 1"
    "unat (Bytes prof0) + length (Data (p i0)) < 2 ^ 64"
    by (simp_all add: reg0_def prof0_def i0_def pkt_tcp_def)
  from getIPProfile_monotone [of "''10.0.0.1''" reg0 prof0 rs0 i0] h
  show ?thesis by simp
qed

text \<open>
  C6 as stated fails when a counter is at the largest value of its type: the call
  wraps it around. For the profile below a TCP packet of sixty bytes turns the packet
  counter from \<open>2^63 - 1\<close> into \<open>- 2^63\<close>, the byte counter and the byte total of
  port 40000 from \<open>2^64 - 1\<close> into 59 and the TCP count of the port into 0; a UDP
  packet does the same to the UDP count.
\<close>

theorem getIPProfile_counters_wrap:
  "fst (getIPProfile rs0 ''10.0.0.1'' i0 reg_wrap) = Some (update_profile rs0 i0 prof_wrap)
   \<and> sint (NumPackets prof_wrap) = 9223372036854775807
   \<and> sint (NumPackets (update_profile rs0 i0 prof_wrap)) = - 9223372036854775808
   \<and> Bytes prof_wrap = 18446744073709551615
   \<and> Bytes (update_profile rs0 i0 prof_wrap) = 59
   \<and> SrcPorts prof_wrap ''40000''
       = Some \<lparr>NumTotal = 18446744073709551615, NumTCP = 18446744073709551615,
               NumUDP = 18446744073709551615\<rparr>
   \<and> SrcPorts (update_profile rs0 i0 prof_wrap) ''40000''
       = Some \<lparr>NumTotal = 59, NumTCP = 0, NumUDP = 18446744073709551615\<rparr>
   \<and> SrcPorts (update_profile rs0 i_udp prof_wrap) ''40000''
       = Some \<lparr>NumTotal = 59, NumTCP = 18446744073709551615, NumUDP = 0\<rparr>"
proof -
  have r: "Items reg_wrap ''10.0.0.1'' = Some prof_wrap" by (simp add: reg_wrap_def)
  have 1: "fst (getIPProfile rs0 ''10.0.0.1'' i0 reg_wrap) = Some (update_profile rs0 i0 prof_wrap)"
    using getIPProfile_existing [OF _ r, of rs0 i0] by simp
  have l: "length (Data (p i0)) = 60" "length (Data (p i_udp)) = 60"
    by (simp_all add: i0_def i_udp_def pkt_tcp_def)
  have t: "TransportLayer (p i0) = Some \<lparr>tl_LayerType = LayerTypeTCP, TransportFlow = ports_c2s\<rparr>"
    "TransportLayer (p i_udp) = Some \<lparr>tl_LayerType = LayerTypeUDP, TransportFlow = ports_c2s\<rparr>"
    by (simp_all add: i0_def i_udp_def pkt_tcp_def)
  have 2: "sint (NumPackets prof_wrap) = 9223372036854775807"
    "sint (NumPackets (update_profile rs0 i0 prof_wrap)) = - 9223372036854775808"
    by (simp_all add: update_profile_counters prof_wrap_def)
  have 3: "Bytes prof_wrap = 18446744073709551615" "Bytes (update_profile rs0 i0 prof_wrap) = 59"
    by (simp_all add: update_profile_counters l prof_wrap_def)
  have 4: "SrcPorts prof_wrap ''40000''
       = Some \<lparr>NumTotal = 18446744073709551615, NumTCP = 18446744073709551615,
               NumUDP = 18446744073709551615\<rparr>"
    by (simp add: prof_wrap_def)
  have 5: "SrcPorts (update_profile rs0 i0 prof_wrap) ''40000''
       = Some \<lparr>NumTotal = 59, NumTCP = 0, NumUDP = 18446744073709551615\<rparr>"
    by (simp add: update_profile_SrcPorts t l update_port_def count_layer_def prof_wrap_def
          ports_c2s_def)
  have 6: "SrcPorts (update_profile rs0 i_udp prof_wrap) ''40000''
       = Some \<lparr>NumTotal = 59, NumTCP = 18446744073709551615, NumUDP = 0\<rparr>"
    by (simp add: update_profile_SrcPorts t l update_port_def count_layer_def prof_wrap_def
          ports_c2s_def)
  from 1 2 3 4 5 6 show ?thesis by simp
qed

subsection \<open>The end-of-capture pass of the HTTP encoder\<close>

lemma range_resArr_result:
  "range_resArr resArr d newRes =
     (d\<lparr>d_numRecords := d_numRecords d + of_nat (length (List.map_filter combined resArr)),
        d_aWriter := d_aWriter d @ (if d_csv d then [] else List.map_filter combined resArr),
        d_csvWriter := d_csvWriter d @ (if d_csv d then List.map_filter combined resArr else []),
        total := total d + of_nat (length (List.map_filter combined resArr))\<rparr>,
      newRes @ filter (\<lambda>res. res_Request res = None) resArr)"
proof (induction resArr arbitrary: d newRes)
  case Nil
  then show ?case by (simp add: List.map_filter_simps)
next
  case (Cons res rest)
  show ?case
  proof (cases "res_Request res")
    case None
    then show ?thesis
      by (simp add: Cons.IH List.map_filter_simps combined_def Let_def)
  next
    case (Some req)
    then show ?thesis
      by (cases "d_csv d")
         (simp_all add: Cons.IH List.map_filter_simps combined_def Let_def algebra_simps)
  qed
qed

lemma replace_absent:
  "s \<notin> fst ` set xs \<Longrightarrow> map (\<lambda>(k, v). if k = s then (k, n) else (k, v)) xs = xs"
  by (induction xs) auto

lemma range_httpResMap_result:
  assumes "httpResMap d = pre @ rest" and "distinct (map fst (pre @ rest))"
  shows "range_httpResMap rest d =
     d\<lparr>d_numRecords := d_numRecords d + of_nat (length (combined_records rest)),
       d_aWriter := d_aWriter d @ (if d_csv d then [] else combined_records rest),
       d_csvWriter := d_csvWriter d @ (if d_csv d then combined_records rest else []),
       httpResMap := pre @ unmatched_responses rest,
       total := total d + of_nat (length (combined_records rest))\<rparr>"
  using assms
proof (induction rest arbitrary: d pre)
  case Nil
  then show ?case by (simp add: combined_records_def unmatched_responses_def)
next
  case (Cons e rest)
  obtain s resArr where e: "e = (s, resArr)" by (cases e)
  let ?new = "filter (\<lambda>res. res_Request res = None) resArr"
  let ?recs = "List.map_filter combined resArr"
  let ?d1 = "d\<lparr>d_numRecords := d_numRecords d + of_nat (length ?recs),
        d_aWriter := d_aWriter d @ (if d_csv d then [] else ?recs),
        d_csvWriter := d_csvWriter d @ (if d_csv d then ?recs else []),
        total := total d + of_nat (length ?recs)\<rparr>"
  have r: "range_resArr resArr d [] = (?d1, ?new)"
    by (simp add: range_resArr_result)
  from Cons.prems e have ns: "s \<notin> fst ` set pre" "s \<notin> fst ` set rest"
    by auto
  have m: "map (\<lambda>(k, v). if k = s then (k, ?new) else (k, v)) (httpResMap ?d1)
             = (pre @ [(s, ?new)]) @ rest"
    using Cons.prems(1) e ns by (simp add: replace_absent)
  let ?d2 = "?d1\<lparr>httpResMap := (pre @ [(s, ?new)]) @ rest\<rparr>"
  have step: "range_httpResMap (e # rest) d = range_httpResMap rest ?d2"
    unfolding e range_httpResMap.simps r using m by simp
  have dist: "distinct (map fst ((pre @ [(s, ?new)]) @ rest))"
    using Cons.prems(2) e by simp
  have h: "httpResMap ?d2 = (pre @ [(s, ?new)]) @ rest" by simp
  have cr: "combined_records (e # rest) = ?recs @ combined_records rest"
    by (simp add: combined_records_def e)
  have um: "unmatched_responses (e # rest) = (s, ?new) # unmatched_responses rest"
    by (simp add: unmatched_responses_def e)
  show ?case
    unfolding step Cons.IH [OF h dist] cr um
    by (cases "d_csv d") (simp_all add: algebra_simps)
qed

lemma range_reqArr_result:
  "range_reqArr reqArr d =
     d\<lparr>d_numRecords := d_numRecords d
          + of_nat (length (List.map_filter (map_option (setRequest zero_HTTP)) reqArr)),
       d_aWriter := d_aWriter d @ List.map_filter (map_option (setRequest zero_HTTP)) reqArr,
       total := total d + of_nat (length reqArr)\<rparr>"
proof (induction reqArr arbitrary: d)
  case Nil
  then show ?case by (simp add: List.map_filter_simps)
next
  case (Cons r rest)
  then show ?case
    by (cases r) (simp_all add: List.map_filter_simps Let_def algebra_simps)
qed

lemma range_httpReqMap_result:
  "range_httpReqMap m d =
     d\<lparr>d_numRecords := d_numRecords d + of_nat (length (request_records m)),
       d_aWriter := d_aWriter d @ request_records m,
       total := total d + of_nat (request_slots m)\<rparr>"
proof (induction m arbitrary: d)
  case Nil
  then show ?case by (simp add: request_records_def request_slots_def)
next
  case (Cons e m)
  obtain s reqArr where e: "e = (s, reqArr)" by (cases e)
  show ?case
    unfolding e range_httpReqMap.simps Cons.IH range_reqArr_result
    by (simp add: request_records_def request_slots_def algebra_simps)
qed


text \<open>
  C1, as the code has it. For response and request maps as Go has them (one entry
  per stream), the pass at the end of the capture does exactly this: for every stream
  of the response map, every response that carries its request is handed to the
  writer as one combined record (to the CSV writer in CSV mode, to the protobuf writer
  otherwise) and counted; every response without a request is kept in the response
  map under its stream, and no record is written for it; then every request of the
  request map that is not nil is handed to the protobuf writer as a request-only
  record and counted. Nothing else is written, and the request map is unchanged.
\<close>

theorem httpEncoder_flush_records:
  assumes "distinct (map fst (httpResMap d))"
  shows "httpEncoder_flush d =
     d\<lparr>d_numRecords := d_numRecords d
          + of_nat (length (combined_records (httpResMap d))
                    + length (request_records (httpReqMap d))),
       d_aWriter := d_aWriter d @ (if d_csv d then [] else combined_records (httpResMap d))
                      @ request_records (httpReqMap d),
       d_csvWriter := d_csvWriter d @ (if d_csv d then combined_records (httpResMap d) else []),
       httpResMap := unmatched_responses (httpResMap d),
       total := of_nat (length (combined_records (httpResMap d))
                        + request_slots (httpReqMap d))\<rparr>"
proof (cases "length (httpResMap d) + length (httpReqMap d) = 0")
  case True
  then have e: "httpResMap d = []" "httpReqMap d = []" by simp_all
  have "httpEncoder_flush d = d\<lparr>total := 0\<rparr>"
    by (simp add: httpEncoder_flush_def e)
  also have "\<dots> = d\<lparr>httpResMap := [], total := 0\<rparr>"
    using e(1) by (metis httpState.surjective httpState.update_convs(5) httpState.select_convs(5))
  finally show ?thesis
    by (simp add: e combined_records_def request_records_def request_slots_def
          unmatched_responses_def)
next
  case False
  let ?d = "d\<lparr>total := 0\<rparr>"
  have h: "httpResMap ?d = [] @ httpResMap d" by simp
  have dist: "distinct (map fst ([] @ httpResMap d))" using assms by simp
  have "httpEncoder_flush d = range_httpReqMap (httpReqMap d) (range_httpResMap (httpResMap d) ?d)"
  proof -
    from False have ne: "\<not> (httpResMap d = [] \<and> httpReqMap d = [])" by simp
    have q: "httpReqMap (range_httpResMap (httpResMap d) ?d) = httpReqMap d"
      by (simp add: range_httpResMap_result [OF h dist])
    show ?thesis
      unfolding httpEncoder_flush_def Let_def using ne q by auto
  qed
  then show ?thesis
    unfolding range_httpResMap_result [OF h dist] range_httpReqMap_result
    by (cases "d_csv d") (simp_all add: algebra_simps)
qed

theorem httpEncoder_flush_records_witness:
  "httpEncoder_flush http0 =
     http0\<lparr>d_numRecords := 2,
       d_aWriter := [setRequest (response_record res_matched) req0, setRequest zero_HTTP req0],
       d_csvWriter := [],
       httpResMap := [(stream0, [res_unmatched])],
       total := 3\<rparr>"
proof -
  have h: "distinct (map fst (httpResMap http0))" "\<not> d_csv http0" "d_numRecords http0 = 0"
    "d_aWriter http0 = []" "d_csvWriter http0 = []"
    "httpResMap http0 = [(stream0, [res_matched, res_unmatched])]"
    "httpReqMap http0 = [(stream0, [Some req0, None])]"
    by (simp_all add: http0_def)
  have m: "res_Request res_matched = Some req0" "res_Request res_unmatched = None"
    by (simp_all add: res_matched_def res_unmatched_def)
  have c: "combined_records [(stream0, [res_matched, res_unmatched])]
             = [setRequest (response_record res_matched) req0]"
    by (simp add: combined_records_def combined_def List.map_filter_simps m)
  have r: "request_records [(stream0, [Some req0, None])] = [setRequest zero_HTTP req0]"
    "request_slots [(stream0, [Some req0, None])] = 2"
    by (simp_all add: request_records_def request_slots_def List.map_filter_simps)
  have u: "unmatched_responses [(stream0, [res_matched, res_unmatched])]
             = [(stream0, [res_unmatched])]"
    by (simp add: unmatched_responses_def m)
  from httpEncoder_flush_records [OF h(1)]
  show ?thesis by (simp add: c r u h)
qed

text \<open>
  C1 as stated fails for a response without a request: the pass over the leftover
  responses is commented out, so with one such response in the map and no request
  the encoder writes nothing; the response is still in the map afterwards.
\<close>

theorem httpEncoder_flush_drops_unmatched_response:
  "httpEncoder_flush http_unmatched = http_unmatched
   \<and> httpResMap http_unmatched = [(stream0, [res_unmatched])]
   \<and> res_Request res_unmatched = None
   \<and> d_aWriter http_unmatched = [] \<and> d_csvWriter http_unmatched = []
   \<and> d_numRecords http_unmatched = 0"
  by (simp add: httpEncoder_flush_def http_unmatched_def res_unmatched_def Let_def)

end
